theory Spec2Isabelle
  imports Complex_Main "HOL-Library.Multiset"
begin

section \<open>JavaScript numbers\<close>

text \<open>
  A JavaScript number is an IEEE 754 binary64 value. \<open>Num x\<close> is the finite value \<open>x\<close>,
  next to the two infinities and NaN; negative zero is not told apart from zero (the
  source never divides by a zero it computed, save behind the guards modelled below).
  \<open>fl\<close> rounds an exact result to the nearest binary64 value, ties to the even
  significand: the exponent of \<open>x\<close> is \<open>\<lfloor>log 2 \<bar>x\<bar>\<rfloor>\<close>, not below -1022 (subnormals), the
  significand has 53 bits, and a rounded magnitude of \<open>2 ^ 1024\<close> or more is infinite.
  Every arithmetic operation of the source is the exact operation followed by \<open>fl\<close>,
  with the IEEE results for infinities, NaN and division by zero.
\<close>

datatype number = Num real | PosInf | NegInf | NaN

definition roundTiesToEven :: "real \<Rightarrow> int" where
  "roundTiesToEven y =
     (let f = \<lfloor>y\<rfloor>; d = y - of_int f
      in if d < 1 / 2 then f else if 1 / 2 < d then f + 1 else if even f then f else f + 1)"

definition overflowThreshold :: real where
  "overflowThreshold = 2 ^ 1024"

definition fl :: "real \<Rightarrow> number" where
  "fl x =
     (if x = 0 then Num 0
      else
        let e = max \<lfloor>log 2 \<bar>x\<bar>\<rfloor> (- 1022);
            q = 2 powr (of_int (e - 52));
            r = of_int (roundTiesToEven (x / q)) * q
        in if overflowThreshold \<le> \<bar>r\<bar> then (if 0 < x then PosInf else NegInf) else Num r)"

definition nneg :: "number \<Rightarrow> number" where
  "nneg a = (case a of Num x \<Rightarrow> Num (- x) | PosInf \<Rightarrow> NegInf | NegInf \<Rightarrow> PosInf | NaN \<Rightarrow> NaN)"

definition nadd :: "number \<Rightarrow> number \<Rightarrow> number" where
  "nadd a b =
     (case a of
        NaN \<Rightarrow> NaN
      | Num x \<Rightarrow> (case b of Num y \<Rightarrow> fl (x + y) | PosInf \<Rightarrow> PosInf | NegInf \<Rightarrow> NegInf
                   | NaN \<Rightarrow> NaN)
      | PosInf \<Rightarrow> (case b of NegInf \<Rightarrow> NaN | NaN \<Rightarrow> NaN | Num y \<Rightarrow> PosInf | PosInf \<Rightarrow> PosInf)
      | NegInf \<Rightarrow> (case b of PosInf \<Rightarrow> NaN | NaN \<Rightarrow> NaN | Num y \<Rightarrow> NegInf | NegInf \<Rightarrow> NegInf))"

definition nsub :: "number \<Rightarrow> number \<Rightarrow> number" where
  "nsub a b = nadd a (nneg b)"

definition signedInf :: "bool \<Rightarrow> number" where
  "signedInf positive = (if positive then PosInf else NegInf)"

definition nmul :: "number \<Rightarrow> number \<Rightarrow> number" where
  "nmul a b =
     (case a of
        NaN \<Rightarrow> NaN
      | Num x \<Rightarrow>
          (case b of
             Num y \<Rightarrow> fl (x * y)
           | PosInf \<Rightarrow> (if x = 0 then NaN else signedInf (0 < x))
           | NegInf \<Rightarrow> (if x = 0 then NaN else signedInf (x < 0))
           | NaN \<Rightarrow> NaN)
      | PosInf \<Rightarrow>
          (case b of
             Num y \<Rightarrow> (if y = 0 then NaN else signedInf (0 < y))
           | PosInf \<Rightarrow> PosInf | NegInf \<Rightarrow> NegInf | NaN \<Rightarrow> NaN)
      | NegInf \<Rightarrow>
          (case b of
             Num y \<Rightarrow> (if y = 0 then NaN else signedInf (y < 0))
           | PosInf \<Rightarrow> NegInf | NegInf \<Rightarrow> PosInf | NaN \<Rightarrow> NaN))"

definition ndiv :: "number \<Rightarrow> number \<Rightarrow> number" where
  "ndiv a b =
     (case a of
        NaN \<Rightarrow> NaN
      | Num x \<Rightarrow>
          (case b of
             Num y \<Rightarrow>
               (if y = 0 then (if x = 0 then NaN else signedInf (0 < x)) else fl (x / y))
           | PosInf \<Rightarrow> Num 0 | NegInf \<Rightarrow> Num 0 | NaN \<Rightarrow> NaN)
      | PosInf \<Rightarrow>
          (case b of Num y \<Rightarrow> signedInf (0 \<le> y) | PosInf \<Rightarrow> NaN | NegInf \<Rightarrow> NaN | NaN \<Rightarrow> NaN)
      | NegInf \<Rightarrow>
          (case b of Num y \<Rightarrow> signedInf (y < 0) | PosInf \<Rightarrow> NaN | NegInf \<Rightarrow> NaN | NaN \<Rightarrow> NaN))"

text \<open>The comparisons \<open><\<close>, \<open><=\<close>, \<open>>\<close>, \<open>>=\<close> and \<open>===\<close>: all false when an operand is NaN.\<close>

fun nlt :: "number \<Rightarrow> number \<Rightarrow> bool" where
  "nlt NaN b = False"
| "nlt a NaN = False"
| "nlt (Num x) (Num y) = (x < y)"
| "nlt a NegInf = False"
| "nlt PosInf b = False"
| "nlt NegInf b = True"
| "nlt a PosInf = True"

fun nle :: "number \<Rightarrow> number \<Rightarrow> bool" where
  "nle NaN b = False"
| "nle a NaN = False"
| "nle (Num x) (Num y) = (x \<le> y)"
| "nle NegInf b = True"
| "nle a PosInf = True"
| "nle a NegInf = False"
| "nle PosInf b = False"

definition ngt :: "number \<Rightarrow> number \<Rightarrow> bool" where
  "ngt a b = nlt b a"

definition nge :: "number \<Rightarrow> number \<Rightarrow> bool" where
  "nge a b = nle b a"

fun nseq :: "number \<Rightarrow> number \<Rightarrow> bool" where
  "nseq NaN b = False"
| "nseq a NaN = False"
| "nseq a b = (a = b)"

text \<open>\<open>Math.max\<close> and \<open>Math.min\<close> over a spread array: NaN if any argument is NaN.\<close>

definition nmax :: "number \<Rightarrow> number \<Rightarrow> number" where
  "nmax a b = (if a = NaN \<or> b = NaN then NaN else if nlt a b then b else a)"

definition nmin :: "number \<Rightarrow> number \<Rightarrow> number" where
  "nmin a b = (if a = NaN \<or> b = NaN then NaN else if nlt b a then b else a)"

definition math_max :: "number list \<Rightarrow> number" where
  "math_max xs = foldl nmax NegInf xs"

definition math_min :: "number list \<Rightarrow> number" where
  "math_min xs = foldl nmin PosInf xs"

section \<open>Data model (types.ts)\<close>

text \<open>
  The record types of the gradebook. A score of type \<open>number | null\<close> is a
  \<open>number option\<close>, \<open>None\<close> being \<open>null\<close>. The corte type \<open>1 | 2 | 3\<close> is a
  three-element datatype.
\<close>

datatype corte = Corte1 | Corte2 | Corte3

record student =
  st_id :: string
  st_name :: string
  st_email :: string

record evaluation =
  ev_id :: string
  ev_subjectId :: string
  ev_corte :: corte
  ev_name :: string
  ev_percentage :: number

record grade =
  studentId :: string
  evaluationId :: string
  score :: "number option"

fun corteNum :: "corte \<Rightarrow> int" where
  "corteNum Corte1 = 1"
| "corteNum Corte2 = 2"
| "corteNum Corte3 = 3"

section \<open>Array helpers\<close>

text \<open>
  \<open>Array.prototype.sort(cmp)\<close>: a stable sort driven by the sign of the comparator,
  modelled as a stable insertion sort; \<open>before x y\<close> says that the comparator's result
  for \<open>(x, y)\<close> is not positive. \<open>array_sort\<close> takes a comparator with integer results
  (\<open>localeCompare\<close>, a built-in of the platform, is a parameter of the model; the
  difference of two cortes is an exact small integer), \<open>array_sort_num\<close> one with number
  results, where a NaN counts as 0.
\<close>

fun insort_cmp :: "('a \<Rightarrow> 'a \<Rightarrow> bool) \<Rightarrow> 'a \<Rightarrow> 'a list \<Rightarrow> 'a list" where
  "insort_cmp before x [] = [x]"
| "insort_cmp before x (y # ys) =
     (if before x y then x # y # ys else y # insort_cmp before x ys)"

definition array_sort_by :: "('a \<Rightarrow> 'a \<Rightarrow> bool) \<Rightarrow> 'a list \<Rightarrow> 'a list" where
  "array_sort_by before xs = foldr (insort_cmp before) xs []"

definition array_sort :: "('a \<Rightarrow> 'a \<Rightarrow> int) \<Rightarrow> 'a list \<Rightarrow> 'a list" where
  "array_sort cmp xs = array_sort_by (\<lambda>a b. cmp a b \<le> 0) xs"

definition array_sort_num :: "('a \<Rightarrow> 'a \<Rightarrow> number) \<Rightarrow> 'a list \<Rightarrow> 'a list" where
  "array_sort_num cmp xs = array_sort_by (\<lambda>a b. \<not> ngt (cmp a b) (Num 0)) xs"

section \<open>Grade lookup\<close>

text \<open>
  \<open>getGrade\<close> is declared with the same body in GradeTable.tsx, ReportsView.tsx and
  SubjectView.tsx: \<open>grades.find(g => g.studentId === studentId && g.evaluationId === evaluationId)\<close>.
\<close>

definition getGrade :: "grade list \<Rightarrow> string \<Rightarrow> string \<Rightarrow> grade option" where
  "getGrade grades sid eid =
     find (\<lambda>g. studentId g = sid \<and> evaluationId g = eid) grades"

text \<open>The expression \<open>grade?.score ?? 0\<close>: an absent grade and a null score both give 0.\<close>

definition scoreOrZero :: "grade option \<Rightarrow> number" where
  "scoreOrZero g =
     (case g of None \<Rightarrow> Num 0
      | Some g' \<Rightarrow> (case score g' of None \<Rightarrow> Num 0 | Some s \<Rightarrow> s))"

section \<open>GradeTable\<close>

text \<open>
  \<open>evaluationsByCorte\<close>: every evaluation is pushed to the array of its corte, then each
  array is sorted by name.
\<close>

definition evaluationsByCorte ::
  "(string \<Rightarrow> string \<Rightarrow> int) \<Rightarrow> evaluation list \<Rightarrow> corte \<Rightarrow> evaluation list" where
  "evaluationsByCorte localeCompare evaluations c =
     array_sort (\<lambda>a b. localeCompare (ev_name a) (ev_name b))
       (filter (\<lambda>ev. ev_corte ev = c) evaluations)"

text \<open>GradeTable.tsx, \<open>calculateCorteTotal\<close>.\<close>

definition calculateCorteTotal ::
  "(string \<Rightarrow> string \<Rightarrow> int) \<Rightarrow> evaluation list \<Rightarrow> grade list \<Rightarrow> string \<Rightarrow> corte \<Rightarrow> number" where
  "calculateCorteTotal localeCompare evaluations grades sid c =
     (let corteEvals = evaluationsByCorte localeCompare evaluations c in
      if length corteEvals = 0 then Num 0
      else foldl (\<lambda>total ev.
             let g = getGrade grades sid (ev_id ev);
                 sc = scoreOrZero g
             in nadd total (nmul sc (ndiv (ev_percentage ev) (Num 100)))) (Num 0) corteEvals)"

text \<open>The later GradeTable revision, \<open>calculateWeightedCorteSum\<close> (same body).\<close>

definition calculateWeightedCorteSum ::
  "(string \<Rightarrow> string \<Rightarrow> int) \<Rightarrow> evaluation list \<Rightarrow> grade list \<Rightarrow> string \<Rightarrow> corte \<Rightarrow> number" where
  "calculateWeightedCorteSum localeCompare evaluations grades sid c =
     (let corteEvals = evaluationsByCorte localeCompare evaluations c in
      if length corteEvals = 0 then Num 0
      else foldl (\<lambda>total ev.
             let g = getGrade grades sid (ev_id ev);
                 sc = scoreOrZero g
             in nadd total (nmul sc (ndiv (ev_percentage ev) (Num 100)))) (Num 0) corteEvals)"

text \<open>\<open>calculateNormalizedCorteGrade\<close> of the later GradeTable revision.\<close>

definition calculateNormalizedCorteGrade ::
  "(string \<Rightarrow> string \<Rightarrow> int) \<Rightarrow> evaluation list \<Rightarrow> grade list \<Rightarrow> string \<Rightarrow> corte \<Rightarrow> number" where
  "calculateNormalizedCorteGrade localeCompare evaluations grades sid c =
     (let corteEvals = evaluationsByCorte localeCompare evaluations c in
      if length corteEvals = 0 then Num 0
      else
        let weightedSum = calculateWeightedCorteSum localeCompare evaluations grades sid c;
            totalPercentageInCorte =
              foldl (\<lambda>total ev. nadd total (ev_percentage ev)) (Num 0) corteEvals
        in if nseq totalPercentageInCorte (Num 0) then Num 0
           else ndiv weightedSum (ndiv totalPercentageInCorte (Num 100)))"

text \<open>The table row: \<open>finalGrade = totalCorte1 + totalCorte2 + totalCorte3\<close>.\<close>

definition finalGrade ::
  "(string \<Rightarrow> string \<Rightarrow> int) \<Rightarrow> evaluation list \<Rightarrow> grade list \<Rightarrow> string \<Rightarrow> number" where
  "finalGrade localeCompare evaluations grades sid =
     (let totalCorte1 = calculateCorteTotal localeCompare evaluations grades sid Corte1;
          totalCorte2 = calculateCorteTotal localeCompare evaluations grades sid Corte2;
          totalCorte3 = calculateCorteTotal localeCompare evaluations grades sid Corte3
      in nadd (nadd totalCorte1 totalCorte2) totalCorte3)"

text \<open>The same row in the later revision, over \<open>calculateWeightedCorteSum\<close>.\<close>

definition finalGradeWeighted ::
  "(string \<Rightarrow> string \<Rightarrow> int) \<Rightarrow> evaluation list \<Rightarrow> grade list \<Rightarrow> string \<Rightarrow> number" where
  "finalGradeWeighted localeCompare evaluations grades sid =
     (let weightedCorte1 = calculateWeightedCorteSum localeCompare evaluations grades sid Corte1;
          weightedCorte2 = calculateWeightedCorteSum localeCompare evaluations grades sid Corte2;
          weightedCorte3 = calculateWeightedCorteSum localeCompare evaluations grades sid Corte3
      in nadd (nadd weightedCorte1 weightedCorte2) weightedCorte3)"

section \<open>ReportsView\<close>

text \<open>
  \<open>allStats\<close>, final grade of one student: one reduce over all evaluations, in the
  order of the list.
\<close>

definition reportFinalGrade :: "evaluation list \<Rightarrow> grade list \<Rightarrow> string \<Rightarrow> number" where
  "reportFinalGrade evaluations grades sid =
     foldl (\<lambda>total ev.
        let g = getGrade grades sid (ev_id ev)
        in nadd total (nmul (scoreOrZero g) (ndiv (ev_percentage ev) (Num 100))))
       (Num 0) evaluations"

text \<open>
  \<open>allStats\<close>, the normalized score of one student in one corte; \<open>None\<close> when the corte
  has no evaluations and nothing is pushed to the corte's score list.
\<close>

definition reportNormalizedScore ::
  "evaluation list \<Rightarrow> grade list \<Rightarrow> string \<Rightarrow> corte \<Rightarrow> number option" where
  "reportNormalizedScore evaluations grades sid corteNum' =
     (let corteEvals = filter (\<lambda>ev. ev_corte ev = corteNum') evaluations in
      if length corteEvals > 0 then
        let corteTotal = foldl (\<lambda>total ev.
              let g = getGrade grades sid (ev_id ev)
              in nadd total (nmul (scoreOrZero g) (ndiv (ev_percentage ev) (Num 100))))
              (Num 0) corteEvals;
            totalPercentage = foldl (\<lambda>p ev. nadd p (ev_percentage ev)) (Num 0) corteEvals;
            normalizedScore =
              (if ngt totalPercentage (Num 0)
               then ndiv corteTotal (ndiv totalPercentage (Num 100)) else Num 0)
        in Some normalizedScore
      else None)"

text \<open>
  \<open>handleDownloadCSV\<close>. The evaluations are sorted by corte, then by name, and pushed
  to the array of their corte. A student's row starts with id, quoted name and email;
  every corte that has evaluations appends one formatted score per evaluation and the
  formatted corte total, and adds the corte total to \<open>finalGrade\<close>; the formatted final
  grade ends the row. \<open>toFixed\<close> (a platform built-in) is a parameter. The model
  returns the row together with the value of the local variable \<open>finalGrade\<close>.
\<close>

definition csvCorteEvals ::
  "(string \<Rightarrow> string \<Rightarrow> int) \<Rightarrow> evaluation list \<Rightarrow> evaluation list list" where
  "csvCorteEvals localeCompare evaluations =
     (let sorted = array_sort (\<lambda>a b.
            let d = corteNum (ev_corte a) - corteNum (ev_corte b)
            in if d \<noteq> 0 then d else localeCompare (ev_name a) (ev_name b)) evaluations
      in map (\<lambda>c. filter (\<lambda>ev. ev_corte ev = c) sorted) [Corte1, Corte2, Corte3])"

definition csvEvalStep ::
  "(number \<Rightarrow> nat \<Rightarrow> string) \<Rightarrow> grade list \<Rightarrow> string \<Rightarrow>
   string list \<times> number \<Rightarrow> evaluation \<Rightarrow> string list \<times> number" where
  "csvEvalStep toFixed grades sid acc ev =
     (case acc of (row, corteTotal) \<Rightarrow>
        let g = getGrade grades sid (ev_id ev);
            sc = scoreOrZero g
        in (row @ [toFixed sc 2],
            nadd corteTotal (nmul sc (ndiv (ev_percentage ev) (Num 100)))))"

definition csvCorteStep ::
  "(number \<Rightarrow> nat \<Rightarrow> string) \<Rightarrow> grade list \<Rightarrow> string \<Rightarrow>
   string list \<times> number \<Rightarrow> evaluation list \<Rightarrow> string list \<times> number" where
  "csvCorteStep toFixed grades sid acc evals =
     (case acc of (row, finalGrade') \<Rightarrow>
        if length evals > 0 then
          (case foldl (csvEvalStep toFixed grades sid) (row, Num 0) evals of
             (row', corteTotal) \<Rightarrow>
               (row' @ [toFixed corteTotal 2], nadd finalGrade' corteTotal))
        else (row, finalGrade'))"

definition csvStudentRow ::
  "(number \<Rightarrow> nat \<Rightarrow> string) \<Rightarrow> (string \<Rightarrow> string \<Rightarrow> int) \<Rightarrow> evaluation list \<Rightarrow>
   grade list \<Rightarrow> student \<Rightarrow> string list \<times> number" where
  "csvStudentRow toFixed localeCompare evaluations grades student =
     (case foldl (csvCorteStep toFixed grades (st_id student))
             ([st_id student, ''\"'' @ st_name student @ ''\"'', st_email student], Num 0)
             (csvCorteEvals localeCompare evaluations) of
        (row, finalGrade') \<Rightarrow> (row @ [toFixed finalGrade' 2], finalGrade'))"

text \<open>
  \<open>calculateStats\<close>. The empty input returns the all-zero record at once. Otherwise the
  scores are averaged, the extremes taken, the passed counted against \<open>passingGrade\<close>
  (10 by default), every score put into one of five buckets by the chain of comparisons,
  and the two lists filtered and sorted by descending score. The counts are natural
  numbers. \<open>round2\<close> is \<open>parseFloat(x.toFixed(2))\<close>: \<open>toFixed\<close> takes the integer n with
  n / 100 nearest to the magnitude of the value (the larger n on a tie) and prints the
  value itself from \<open>10 ^ 21\<close> on; \<open>parseFloat\<close> rounds the printed decimal to a number.
\<close>

record named_score =
  ns_name :: string
  ns_score :: number

record stats =
  average :: number
  highest :: number
  lowest :: number
  passed :: nat
  failed :: nat
  passRate :: number
  distribution :: "nat list"
  approvedStudents :: "named_score list"
  failedStudents :: "named_score list"

definition round2 :: "number \<Rightarrow> number" where
  "round2 a =
     (case a of
        Num x \<Rightarrow>
          (if 10 ^ 21 \<le> \<bar>x\<bar> then Num x
           else if x < 0 then fl (- (of_int \<lfloor>(- x) * 100 + 1 / 2\<rfloor> / 100))
           else fl (of_int \<lfloor>x * 100 + 1 / 2\<rfloor> / 100))
      | PosInf \<Rightarrow> PosInf | NegInf \<Rightarrow> NegInf | NaN \<Rightarrow> NaN)"

definition bucketStep :: "nat list \<Rightarrow> number \<Rightarrow> nat list" where
  "bucketStep distribution' sc =
     (if nlt sc (Num 4) then distribution'[0 := distribution' ! 0 + 1]
      else if nlt sc (Num 8) then distribution'[1 := distribution' ! 1 + 1]
      else if nlt sc (Num 12) then distribution'[2 := distribution' ! 2 + 1]
      else if nlt sc (Num 16) then distribution'[3 := distribution' ! 3 + 1]
      else distribution'[4 := distribution' ! 4 + 1])"

definition calculateStats :: "named_score list \<Rightarrow> number \<Rightarrow> stats" where
  "calculateStats studentScores passingGrade =
     (if length studentScores = 0 then
        \<lparr>average = Num 0, highest = Num 0, lowest = Num 0, passed = 0, failed = 0,
         passRate = Num 0, distribution = [0, 0, 0, 0, 0], approvedStudents = [],
         failedStudents = []\<rparr>
      else
        let scores = map ns_score studentScores;
            average' = ndiv (foldl (\<lambda>a b. nadd a b) (Num 0) scores) (Num (real (length scores)));
            highest' = math_max scores;
            lowest' = math_min scores;
            passed' = length (filter (\<lambda>s. nge s passingGrade) scores);
            failed' = length scores - passed';
            passRate' = nmul (ndiv (Num (real passed')) (Num (real (length scores)))) (Num 100);
            distribution' = foldl bucketStep [0, 0, 0, 0, 0] scores;
            approvedStudents' =
              array_sort_num (\<lambda>a b. nsub (ns_score b) (ns_score a))
                (filter (\<lambda>s. nge (ns_score s) passingGrade) studentScores);
            failedStudents' =
              array_sort_num (\<lambda>a b. nsub (ns_score b) (ns_score a))
                (filter (\<lambda>s. nlt (ns_score s) passingGrade) studentScores)
        in \<lparr>average = round2 average', highest = round2 highest', lowest = round2 lowest',
            passed = passed', failed = failed', passRate = round2 passRate',
            distribution = distribution',
            approvedStudents = approvedStudents', failedStudents = failedStudents'\<rparr>)"

section \<open>SubjectView\<close>

text \<open>
  \<open>handleEmailByCorte\<close>, the grade written for one student: \<open>None\<close> when the corte
  has no evaluations (the handler alerts and composes nothing). The view's
  \<open>evaluationsByCorte\<close> is built from \<open>subjectEvaluations\<close> the way the table's is.
\<close>

definition emailNormalizedGrade ::
  "(string \<Rightarrow> string \<Rightarrow> int) \<Rightarrow> evaluation list \<Rightarrow> grade list \<Rightarrow> string \<Rightarrow> corte \<Rightarrow>
   number option" where
  "emailNormalizedGrade localeCompare subjEvals grades sid c =
     (let corteEvals = evaluationsByCorte localeCompare subjEvals c in
      if length corteEvals = 0 then None
      else
        let weightedSum = foldl (\<lambda>total ev.
              let g = getGrade grades sid (ev_id ev);
                  sc = scoreOrZero g
              in nadd total (nmul sc (ndiv (ev_percentage ev) (Num 100)))) (Num 0) corteEvals;
            totalPercentageInCorte =
              foldl (\<lambda>total ev. nadd total (ev_percentage ev)) (Num 0) corteEvals;
            normalizedGrade =
              (if ngt totalPercentageInCorte (Num 0)
               then ndiv weightedSum (ndiv totalPercentageInCorte (Num 100))
               else Num 0)
        in Some normalizedGrade)"

text \<open>
  The evaluation form. \<open>newEval\<close> holds the three input strings; \<open>error\<close> is the
  message shown in the modal (\<open>None\<close> for the empty string). The messages are values of
  \<open>save_error\<close>, whose arguments are the numbers interpolated into the text:
  \<^item> \<open>MissingField\<close>: "Nombre y porcentaje son requeridos."
  \<^item> \<open>InvalidPercentage\<close>: the percentage must be a positive number.
  \<^item> \<open>CorteBudgetExceeded corte max available\<close>: the percentage for the corte cannot
    exceed max%; "Disponible:" available, printed with \<open>toFixed(2)\<close>.
  \<^item> \<open>TotalBudgetExceeded available\<close>: the total over all cortes cannot exceed 100%;
    "Disponible:" available.
  \<^item> \<open>PercentageOutOfRange\<close> and \<open>TotalExceeded remaining\<close>: the two messages of the
    earlier revision, \<open>handleAddEvaluation\<close> ("entre 1 y 100", "Restante:").
  \<open>evaluations\<close> is the prop the parent owns; \<open>onAddEvaluation\<close> and
  \<open>onUpdateEvaluation\<close> are the parent's callbacks and are parameters, acting on that
  list. \<open>parseFloat\<close> (its result may be NaN) and \<open>parseInt\<close>, whose result the source
  casts to \<open>1 | 2 | 3\<close>, are parameters as well.
\<close>

datatype save_error =
    MissingField
  | InvalidPercentage
  | CorteBudgetExceeded corte number number
  | TotalBudgetExceeded number
  | PercentageOutOfRange
  | TotalExceeded number

record new_eval =
  ne_name :: string
  ne_percentage :: string
  ne_corte :: string

record eval_data =
  ed_name :: string
  ed_percentage :: number
  ed_corte :: corte

record subject_view =
  sv_evaluations :: "evaluation list"
  sv_isEvalModalOpen :: bool
  sv_editingEvaluation :: "evaluation option"
  sv_newEval :: new_eval
  sv_error :: "save_error option"

fun CORTE_PERCENTAGES :: "corte \<Rightarrow> number" where
  "CORTE_PERCENTAGES Corte1 = Num 30"
| "CORTE_PERCENTAGES Corte2 = Num 30"
| "CORTE_PERCENTAGES Corte3 = Num 40"

text \<open>
  \<open>String.prototype.trim\<close> on the white space and line terminators that fit a
  one-byte character: TAB, LF, VT, FF, CR, space and NBSP.
\<close>

definition isWhiteSpace :: "char \<Rightarrow> bool" where
  "isWhiteSpace ch =
     (ch = CHR 0x09 \<or> ch = CHR 0x0A \<or> ch = CHR 0x0B \<or> ch = CHR 0x0C \<or> ch = CHR 0x0D
      \<or> ch = CHR '' '' \<or> ch = CHR 0xA0)"

definition trim :: "string \<Rightarrow> string" where
  "trim s = rev (dropWhile isWhiteSpace (rev (dropWhile isWhiteSpace s)))"

definition subjectEvaluations :: "evaluation list \<Rightarrow> string \<Rightarrow> evaluation list" where
  "subjectEvaluations evaluations subject_id =
     filter (\<lambda>ev. ev_subjectId ev = subject_id) evaluations"

definition totalPercentage :: "evaluation list \<Rightarrow> number" where
  "totalPercentage subjEvals = foldl (\<lambda>acc ev. nadd acc (ev_percentage ev)) (Num 0) subjEvals"

definition handleCloseEvalModal :: "subject_view \<Rightarrow> subject_view" where
  "handleCloseEvalModal st =
     st\<lparr>sv_isEvalModalOpen := False, sv_editingEvaluation := None, sv_error := None,
        sv_newEval := \<lparr>ne_name = '''', ne_percentage = '''', ne_corte = ''1''\<rparr>\<rparr>"

text \<open>The two local constants of \<open>handleSaveEvaluation\<close> that the budget checks read.\<close>

definition percentageForThisCorte ::
  "evaluation list \<Rightarrow> evaluation option \<Rightarrow> corte \<Rightarrow> number" where
  "percentageForThisCorte subjEvals editingEvaluation c =
     foldl (\<lambda>acc ev.
        if (case editingEvaluation of None \<Rightarrow> False | Some e \<Rightarrow> ev_id e = ev_id ev)
        then acc
        else nadd acc (ev_percentage ev)) (Num 0) (filter (\<lambda>ev. ev_corte ev = c) subjEvals)"

definition currentTotalWithoutEdited :: "evaluation list \<Rightarrow> evaluation option \<Rightarrow> number" where
  "currentTotalWithoutEdited subjEvals editingEvaluation =
     nsub (totalPercentage subjEvals)
       (case editingEvaluation of None \<Rightarrow> Num 0 | Some e \<Rightarrow> ev_percentage e)"

text \<open>
  \<open>handleSaveEvaluation\<close>: each early \<open>return\<close> after \<open>setError\<close> is a branch that
  changes the error alone; the last branch calls the parent's callback and closes the modal.
\<close>

definition handleSaveEvaluation ::
  "(string \<Rightarrow> number) \<Rightarrow> (string \<Rightarrow> corte) \<Rightarrow>
   (eval_data \<Rightarrow> evaluation list \<Rightarrow> evaluation list) \<Rightarrow>
   (evaluation \<Rightarrow> evaluation list \<Rightarrow> evaluation list) \<Rightarrow>
   string \<Rightarrow> subject_view \<Rightarrow> subject_view" where
  "handleSaveEvaluation parseFloat parseInt onAddEvaluation onUpdateEvaluation subject_id st =
     (let newEval = sv_newEval st;
          editingEvaluation = sv_editingEvaluation st;
          subjEvals = subjectEvaluations (sv_evaluations st) subject_id;
          percentage = parseFloat (ne_percentage newEval);
          corte' = parseInt (ne_corte newEval)
      in if trim (ne_name newEval) = [] \<or> percentage = NaN
         then st\<lparr>sv_error := Some MissingField\<rparr>
         else if nle percentage (Num 0) then st\<lparr>sv_error := Some InvalidPercentage\<rparr>
         else
           let forThisCorte = percentageForThisCorte subjEvals editingEvaluation corte';
               maxPercentageForCorte = CORTE_PERCENTAGES corte'
           in if ngt (nadd forThisCorte percentage) maxPercentageForCorte
              then st\<lparr>sv_error := Some (CorteBudgetExceeded corte' maxPercentageForCorte
                                        (nsub maxPercentageForCorte forThisCorte))\<rparr>
              else
                let withoutEdited = currentTotalWithoutEdited subjEvals editingEvaluation
                in if ngt (nadd withoutEdited percentage) (Num 100)
                   then st\<lparr>sv_error :=
                            Some (TotalBudgetExceeded (nsub (Num 100) withoutEdited))\<rparr>
                   else handleCloseEvalModal
                     (st\<lparr>sv_evaluations :=
                        (case editingEvaluation of
                           Some e \<Rightarrow>
                             onUpdateEvaluation
                               (e\<lparr>ev_name := ne_name newEval, ev_percentage := percentage,
                                  ev_corte := corte'\<rparr>) (sv_evaluations st)
                         | None \<Rightarrow>
                             onAddEvaluation
                               \<lparr>ed_name = ne_name newEval, ed_percentage = percentage,
                                ed_corte = corte'\<rparr> (sv_evaluations st))\<rparr>))"

text \<open>
  \<open>handleAddEvaluation\<close> of the earlier SubjectView revision: no edit flow and no
  per-corte cap; \<open>editingEvaluation\<close> does not exist there and is left as it is.
\<close>

definition handleAddEvaluation ::
  "(string \<Rightarrow> number) \<Rightarrow> (string \<Rightarrow> corte) \<Rightarrow>
   (eval_data \<Rightarrow> evaluation list \<Rightarrow> evaluation list) \<Rightarrow>
   string \<Rightarrow> subject_view \<Rightarrow> subject_view" where
  "handleAddEvaluation parseFloat parseInt onAddEvaluation subject_id st =
     (let newEval = sv_newEval st;
          subjEvals = subjectEvaluations (sv_evaluations st) subject_id;
          percentage = parseFloat (ne_percentage newEval)
      in if trim (ne_name newEval) = [] \<or> percentage = NaN
         then st\<lparr>sv_error := Some MissingField\<rparr>
         else if nle percentage (Num 0) \<or> ngt percentage (Num 100)
           then st\<lparr>sv_error := Some PercentageOutOfRange\<rparr>
         else if ngt (nadd (totalPercentage subjEvals) percentage) (Num 100)
           then st\<lparr>sv_error :=
                    Some (TotalExceeded (nsub (Num 100) (totalPercentage subjEvals)))\<rparr>
         else
           st\<lparr>sv_evaluations :=
                onAddEvaluation
                  \<lparr>ed_name = ne_name newEval, ed_percentage = percentage,
                   ed_corte = parseInt (ne_corte newEval)\<rparr> (sv_evaluations st),
              sv_newEval := \<lparr>ne_name = '''', ne_percentage = '''', ne_corte = ''1''\<rparr>,
              sv_error := None,
              sv_isEvalModalOpen := False\<rparr>)"

text \<open>
  \<open>handleEmailByEvaluation\<close>, the lines appended to the body, one per student in name
  order: the score, or "N/P" when the grade is absent or its score null. The conversion
  of a number to text by the template literal is the parameter \<open>numberToString\<close>.
\<close>

definition emailScoreText :: "(number \<Rightarrow> string) \<Rightarrow> grade option \<Rightarrow> string" where
  "emailScoreText numberToString g =
     (case g of None \<Rightarrow> ''N/P''
      | Some g' \<Rightarrow> (case score g' of None \<Rightarrow> ''N/P'' | Some s \<Rightarrow> numberToString s))"

definition emailByEvaluationLines ::
  "(number \<Rightarrow> string) \<Rightarrow> (string \<Rightarrow> string \<Rightarrow> int) \<Rightarrow> student list \<Rightarrow> grade list \<Rightarrow>
   evaluation \<Rightarrow> string list" where
  "emailByEvaluationLines numberToString localeCompare students grades evaluation' =
     map (\<lambda>student.
        let g = getGrade grades (st_id student) (ev_id evaluation');
            sc = emailScoreText numberToString g
        in st_name student @ '': '' @ sc @ [CHR 0x0A])
       (array_sort (\<lambda>a b. localeCompare (st_name a) (st_name b)) students)"

section \<open>The aggregation and the validator as the specification words them\<close>

text \<open>
  The score of a student in an evaluation: the score of the first row of the grades
  list recorded under the key (student, evaluation), 0 when there is no such row or its
  score is null. It is stated on the association list of keys, apart from \<open>getGrade\<close>.
\<close>

definition gradeKey :: "grade \<Rightarrow> string \<times> string" where
  "gradeKey g = (studentId g, evaluationId g)"

definition spec_score :: "grade list \<Rightarrow> string \<Rightarrow> string \<Rightarrow> number" where
  "spec_score grades sid eid =
     (case map_of (map (\<lambda>g. (gradeKey g, score g)) grades) (sid, eid) of
        None \<Rightarrow> Num 0
      | Some None \<Rightarrow> Num 0
      | Some (Some s) \<Rightarrow> s)"

text \<open>
  The weighted contribution of one evaluation, score times (percentage / 100), and the
  running sums in the order of a given list of evaluations; the operations are those of
  JavaScript numbers.
\<close>

definition spec_weighted :: "grade list \<Rightarrow> string \<Rightarrow> evaluation \<Rightarrow> number" where
  "spec_weighted grades sid ev =
     nmul (spec_score grades sid (ev_id ev)) (ndiv (ev_percentage ev) (Num 100))"

definition spec_weightedSum :: "grade list \<Rightarrow> string \<Rightarrow> evaluation list \<Rightarrow> number" where
  "spec_weightedSum grades sid evs =
     foldl (\<lambda>total ev. nadd total (spec_weighted grades sid ev)) (Num 0) evs"

definition spec_percentageSum :: "evaluation list \<Rightarrow> number" where
  "spec_percentageSum evs = foldl (\<lambda>total ev. nadd total (ev_percentage ev)) (Num 0) evs"

text \<open>
  The five ranges of the histogram as the specification lists them: [0,4), [4,8),
  [8,12), [12,16) and, closed at 20, [16,20].
\<close>

definition spec_inBucket :: "nat \<Rightarrow> number \<Rightarrow> bool" where
  "spec_inBucket i s =
     (case s of
        Num x \<Rightarrow>
          (if i = 0 then 0 \<le> x \<and> x < 4
           else if i = 1 then 4 \<le> x \<and> x < 8
           else if i = 2 then 8 \<le> x \<and> x < 12
           else if i = 3 then 12 \<le> x \<and> x < 16
           else if i = 4 then 16 \<le> x \<and> x \<le> 20
           else False)
      | PosInf \<Rightarrow> False | NegInf \<Rightarrow> False | NaN \<Rightarrow> False)"

definition bucketCount :: "nat \<Rightarrow> number list \<Rightarrow> nat" where
  "bucketCount i scores = length (filter (spec_inBucket i) scores)"

text \<open>The reasons for which the validator rejects a proposal, in its two revisions.\<close>

definition spec_saveRejected ::
  "(string \<Rightarrow> number) \<Rightarrow> (string \<Rightarrow> corte) \<Rightarrow> string \<Rightarrow> subject_view \<Rightarrow> bool" where
  "spec_saveRejected parseFloat parseInt subject_id st =
     (let subjEvals = subjectEvaluations (sv_evaluations st) subject_id;
          c = parseInt (ne_corte (sv_newEval st));
          p = parseFloat (ne_percentage (sv_newEval st))
      in p = NaN
         \<or> trim (ne_name (sv_newEval st)) = []
         \<or> nle p (Num 0)
         \<or> ngt (nadd (percentageForThisCorte subjEvals (sv_editingEvaluation st) c) p)
              (CORTE_PERCENTAGES c)
         \<or> ngt (nadd (currentTotalWithoutEdited subjEvals (sv_editingEvaluation st)) p)
              (Num 100))"

definition spec_addRejected ::
  "(string \<Rightarrow> number) \<Rightarrow> string \<Rightarrow> subject_view \<Rightarrow> bool" where
  "spec_addRejected parseFloat subject_id st =
     (let p = parseFloat (ne_percentage (sv_newEval st))
      in p = NaN
         \<or> trim (ne_name (sv_newEval st)) = []
         \<or> nle p (Num 0) \<or> ngt p (Num 100)
         \<or> ngt (nadd (totalPercentage (subjectEvaluations (sv_evaluations st) subject_id)) p)
              (Num 100))"

section \<open>Concrete inputs\<close>

text \<open>The scenario of the specification: one corte-1 evaluation at 30%, one score of 15.\<close>

definition quizEval :: evaluation where
  "quizEval = \<lparr>ev_id = ''e1'', ev_subjectId = ''subj'', ev_corte = Corte1,
               ev_name = ''Quiz'', ev_percentage = Num 30\<rparr>"

definition quizGrade :: grade where
  "quizGrade = \<lparr>studentId = ''s1'', evaluationId = ''e1'', score = Some (Num 15)\<rparr>"

text \<open>An evaluation that weighs 0%: the corte has evaluations and a total of 0.\<close>

definition zeroEval :: evaluation where
  "zeroEval = \<lparr>ev_id = ''e1'', ev_subjectId = ''subj'', ev_corte = Corte1,
               ev_name = ''Quiz'', ev_percentage = Num 0\<rparr>"

text \<open>Three final grades, and grade rows with and without a duplicated key.\<close>

definition threeScores :: "named_score list" where
  "threeScores =
     [\<lparr>ns_name = ''Ana'', ns_score = Num 18\<rparr>, \<lparr>ns_name = ''Luis'', ns_score = Num (19 / 2)\<rparr>,
      \<lparr>ns_name = ''Eva'', ns_score = Num 11\<rparr>]"

definition dupA :: grade where
  "dupA = \<lparr>studentId = ''s1'', evaluationId = ''e1'', score = Some (Num 15)\<rparr>"

definition dupB :: grade where
  "dupB = \<lparr>studentId = ''s1'', evaluationId = ''e1'', score = Some (Num 10)\<rparr>"

definition otherGrade :: grade where
  "otherGrade = \<lparr>studentId = ''s2'', evaluationId = ''e1'', score = None\<rparr>"

definition anaStudent :: student where
  "anaStudent = \<lparr>st_id = ''s1'', st_name = ''Ana'', st_email = ''ana@example.org''\<rparr>"

definition nullGrade :: grade where
  "nullGrade = \<lparr>studentId = ''s1'', evaluationId = ''e1'', score = None\<rparr>"

definition zeroGrade :: grade where
  "zeroGrade = \<lparr>studentId = ''s1'', evaluationId = ''e1'', score = Some (Num 0)\<rparr>"

text \<open>
  Three evaluations of corte 1, listed as A (10%), C (10%), B (15%), with the scores 10,
  10.5 and 13.5 of one student, and the part of \<open>localeCompare\<close> on the names A, B, C.
\<close>

definition localeCompareSample :: "string \<Rightarrow> string \<Rightarrow> int" where
  "localeCompareSample a b =
     (if a = b then 0
      else if a = ''A'' \<or> (a = ''B'' \<and> b = ''C'') then - 1
      else 1)"

definition evalA :: evaluation where
  "evalA = \<lparr>ev_id = ''e1'', ev_subjectId = ''subj'', ev_corte = Corte1, ev_name = ''A'',
             ev_percentage = Num 10\<rparr>"

definition evalC :: evaluation where
  "evalC = \<lparr>ev_id = ''e2'', ev_subjectId = ''subj'', ev_corte = Corte1, ev_name = ''C'',
             ev_percentage = Num 10\<rparr>"

definition evalB :: evaluation where
  "evalB = \<lparr>ev_id = ''e3'', ev_subjectId = ''subj'', ev_corte = Corte1, ev_name = ''B'',
             ev_percentage = Num 15\<rparr>"

definition orderEvals :: "evaluation list" where
  "orderEvals = [evalA, evalC, evalB]"

definition orderGrades :: "grade list" where
  "orderGrades =
     [\<lparr>studentId = ''s1'', evaluationId = ''e1'', score = Some (Num 10)\<rparr>,
      \<lparr>studentId = ''s1'', evaluationId = ''e2'', score = Some (Num (21 / 2))\<rparr>,
      \<lparr>studentId = ''s1'', evaluationId = ''e3'', score = Some (Num (27 / 2))\<rparr>]"

text \<open>
  Inputs for the validator: the parts of \<open>parseFloat\<close> and \<open>parseInt\<close> on the strings
  used (13.8 and 7.9 are the binary64 values nearest to these decimals), callbacks that
  append and replace, an evaluation at 20% in corte 1 being edited (alone, and beside an
  evaluation of 80% in corte 2), a subject of 10% + 30% + 40% and a subject holding 80%
  in corte 2.
\<close>

definition parseFloatSample :: "string \<Rightarrow> number" where
  "parseFloatSample s =
     (if s = ''10'' then Num 10 else if s = ''20'' then Num 20
      else if s = ''25'' then Num 25 else if s = ''30'' then Num 30
      else if s = ''35'' then Num 35
      else if s = ''13.8'' then Num (3884354678607053 / 281474976710656)
      else if s = ''7.9'' then Num (4447304632028365 / 562949953421312)
      else NaN)"

definition parseIntSample :: "string \<Rightarrow> corte" where
  "parseIntSample s = (if s = ''1'' then Corte1 else if s = ''2'' then Corte2 else Corte3)"

definition onAddSample :: "eval_data \<Rightarrow> evaluation list \<Rightarrow> evaluation list" where
  "onAddSample d evs =
     evs @ [\<lparr>ev_id = ''eval-new'', ev_subjectId = ''subj'', ev_corte = ed_corte d,
             ev_name = ed_name d, ev_percentage = ed_percentage d\<rparr>]"

definition onUpdateSample :: "evaluation \<Rightarrow> evaluation list \<Rightarrow> evaluation list" where
  "onUpdateSample e evs = map (\<lambda>x. if ev_id x = ev_id e then e else x) evs"

definition taller20 :: evaluation where
  "taller20 = \<lparr>ev_id = ''e1'', ev_subjectId = ''subj'', ev_corte = Corte1,
               ev_name = ''Taller'', ev_percentage = Num 20\<rparr>"

definition editState :: "string \<Rightarrow> subject_view" where
  "editState pct =
     \<lparr>sv_evaluations = [taller20], sv_isEvalModalOpen = True,
      sv_editingEvaluation = Some taller20,
      sv_newEval = \<lparr>ne_name = ''Taller'', ne_percentage = pct, ne_corte = ''1''\<rparr>,
      sv_error = None\<rparr>"

definition legacyEditState :: subject_view where
  "legacyEditState =
     \<lparr>sv_evaluations =
        [taller20,
         \<lparr>ev_id = ''b'', ev_subjectId = ''subj'', ev_corte = Corte2, ev_name = ''Proyecto'',
            ev_percentage = Num 80\<rparr>],
      sv_isEvalModalOpen = True, sv_editingEvaluation = Some taller20,
      sv_newEval = \<lparr>ne_name = ''Taller'', ne_percentage = ''20'', ne_corte = ''1''\<rparr>,
      sv_error = None\<rparr>"

definition fullSubject :: "evaluation list" where
  "fullSubject =
     [\<lparr>ev_id = ''a'', ev_subjectId = ''subj'', ev_corte = Corte1, ev_name = ''Quiz'',
        ev_percentage = Num 10\<rparr>,
      \<lparr>ev_id = ''b'', ev_subjectId = ''subj'', ev_corte = Corte2, ev_name = ''Parcial'',
        ev_percentage = Num 30\<rparr>,
      \<lparr>ev_id = ''c'', ev_subjectId = ''subj'', ev_corte = Corte3, ev_name = ''Final'',
        ev_percentage = Num 40\<rparr>]"

definition legacySubject :: "evaluation list" where
  "legacySubject =
     [\<lparr>ev_id = ''b'', ev_subjectId = ''subj'', ev_corte = Corte2, ev_name = ''Proyecto'',
        ev_percentage = Num 80\<rparr>]"

definition addStateIn :: "evaluation list \<Rightarrow> string \<Rightarrow> string \<Rightarrow> subject_view" where
  "addStateIn evs pct c =
     \<lparr>sv_evaluations = evs, sv_isEvalModalOpen = True, sv_editingEvaluation = None,
      sv_newEval = \<lparr>ne_name = ''Extra'', ne_percentage = pct, ne_corte = c\<rparr>,
      sv_error = None\<rparr>"

definition addState :: "evaluation list \<Rightarrow> string \<Rightarrow> subject_view" where
  "addState evs pct = addStateIn evs pct ''1''"

text \<open>
  A corte 1 holding 13.8%, 0.1% and 16.1% (30% in all), with the first evaluation opened
  for editing at its own percentage; and a subject holding 32.1% in corte 3, 0.2% and
  29.8% in corte 1 and 30% in corte 2 (92.1% in all).
\<close>

definition tightFirst :: evaluation where
  "tightFirst =
     \<lparr>ev_id = ''a'', ev_subjectId = ''subj'', ev_corte = Corte1, ev_name = ''Uno'',
        ev_percentage = Num (3884354678607053 / 281474976710656)\<rparr>"

definition tightCorte :: "evaluation list" where
  "tightCorte =
     [tightFirst,
      \<lparr>ev_id = ''b'', ev_subjectId = ''subj'', ev_corte = Corte1, ev_name = ''Dos'',
        ev_percentage = Num (3602879701896397 / 36028797018963968)\<rparr>,
      \<lparr>ev_id = ''c'', ev_subjectId = ''subj'', ev_corte = Corte1, ev_name = ''Tres'',
        ev_percentage = Num (2265873562520781 / 140737488355328)\<rparr>]"

definition tightEditState :: subject_view where
  "tightEditState =
     \<lparr>sv_evaluations = tightCorte, sv_isEvalModalOpen = True,
      sv_editingEvaluation = Some tightFirst,
      sv_newEval = \<lparr>ne_name = ''Uno'', ne_percentage = ''13.8'', ne_corte = ''1''\<rparr>,
      sv_error = None\<rparr>"

definition tightSubject :: "evaluation list" where
  "tightSubject =
     [\<lparr>ev_id = ''a'', ev_subjectId = ''subj'', ev_corte = Corte3, ev_name = ''Uno'',
        ev_percentage = Num (4517673376206029 / 140737488355328)\<rparr>,
      \<lparr>ev_id = ''b'', ev_subjectId = ''subj'', ev_corte = Corte1, ev_name = ''Dos'',
        ev_percentage = Num (3602879701896397 / 18014398509481984)\<rparr>,
      \<lparr>ev_id = ''c'', ev_subjectId = ''subj'', ev_corte = Corte1, ev_name = ''Tres'',
        ev_percentage = Num (8387954305977549 / 281474976710656)\<rparr>,
      \<lparr>ev_id = ''d'', ev_subjectId = ''subj'', ev_corte = Corte2, ev_name = ''Cuatro'',
        ev_percentage = Num 30\<rparr>]"

section \<open>Helper lemmas\<close>

subsection \<open>Rounding\<close>

lemma roundTiesToEven_ge_int: "of_int n \<le> y \<Longrightarrow> n \<le> roundTiesToEven y"
  unfolding roundTiesToEven_def Let_def by (auto simp: le_floor_iff; linarith)

lemma roundTiesToEven_le_int:
  assumes a: "y \<le> of_int n"
  shows "roundTiesToEven y \<le> n"
proof -
  have f: "\<lfloor>y\<rfloor> \<le> n" using a by (simp add: floor_le_iff)
  show ?thesis
  proof (cases "\<lfloor>y\<rfloor> = n")
    case True
    then have "y = of_int n" using a by (metis of_int_floor_le order_antisym)
    then show ?thesis by (simp add: roundTiesToEven_def)
  next
    case False
    then have "\<lfloor>y\<rfloor> + 1 \<le> n" using f by simp
    then show ?thesis using f unfolding roundTiesToEven_def Let_def by auto
  qed
qed

text \<open>
  Evaluation of \<open>fl\<close> on a value whose magnitude, scaled by \<open>2 ^ k\<close>, lies between
  \<open>2 ^ 52\<close> and \<open>2 ^ 53\<close>: the result is the scaled value rounded to an integer, scaled
  back.
\<close>

lemma fl_eval:
  assumes lo: "2 ^ 52 \<le> \<bar>x\<bar> * 2 ^ k" and hi: "\<bar>x\<bar> * 2 ^ k < 2 ^ 53" and k: "k \<le> 1074"
  shows "fl x = Num (of_int (roundTiesToEven (x * 2 ^ k)) / 2 ^ k)"
proof -
  have x0: "x \<noteq> 0" using lo by auto
  then have ax: "0 < \<bar>x\<bar>" by simp
  have p: "(2::real) powr (of_int (52 - int k)) = 2 ^ 52 / 2 ^ k"
    by (simp add: powr_diff powr_realpow flip: powr_realpow[of 2 52])
  have p1: "(2::real) powr (of_int (52 - int k + 1)) = 2 ^ 53 / 2 ^ k"
    by (simp add: powr_diff powr_add powr_realpow)
  have "(2::real) ^ 52 / 2 ^ k \<le> \<bar>x\<bar>" using lo by (simp add: field_simps)
  moreover have "\<bar>x\<bar> < 2 ^ 53 / 2 ^ k" using hi by (simp add: field_simps)
  ultimately have "\<lfloor>log 2 \<bar>x\<bar>\<rfloor> = 52 - int k"
    using floor_log_eq_powr_iff [of "\<bar>x\<bar>" 2 "52 - int k"] ax p p1 by simp
  then have e: "max \<lfloor>log 2 \<bar>x\<bar>\<rfloor> (- 1022) = 52 - int k" using k by simp
  have q: "(2::real) powr (of_int (max \<lfloor>log 2 \<bar>x\<bar>\<rfloor> (- 1022) - 52)) = 1 / 2 ^ k"
    unfolding e by (simp add: powr_minus_divide powr_realpow)
  let ?m = "roundTiesToEven (x * 2 ^ k)"
  have "\<bar>x * 2 ^ k\<bar> \<le> 2 ^ 53" using hi by (simp add: abs_mult)
  then have "x * 2 ^ k \<le> of_int (2 ^ 53)" "of_int (- (2 ^ 53)) \<le> x * 2 ^ k" by simp_all
  then have "?m \<le> 2 ^ 53" "- (2 ^ 53) \<le> ?m"
    using roundTiesToEven_le_int roundTiesToEven_ge_int by blast+
  then have "real_of_int ?m \<le> real_of_int (2 ^ 53)" "real_of_int (- (2 ^ 53)) \<le> real_of_int ?m"
    by (simp_all only: of_int_le_iff)
  then have "\<bar>real_of_int ?m\<bar> \<le> 2 ^ 53" by simp
  moreover have "\<bar>real_of_int ?m\<bar> / 2 ^ k \<le> \<bar>real_of_int ?m\<bar> / 1"
    by (rule divide_left_mono) simp_all
  ultimately have "\<bar>real_of_int ?m / 2 ^ k\<bar> \<le> 2 ^ 53"
    by simp
  moreover have "(2::real) ^ 53 < overflowThreshold"
    unfolding overflowThreshold_def by (rule power_strict_increasing) simp_all
  ultimately have small: "\<not> overflowThreshold \<le> \<bar>real_of_int ?m / 2 ^ k\<bar>" by linarith
  show ?thesis
    unfolding fl_def Let_def q using x0 small by simp
qed

subsection \<open>Sorting and folding\<close>

lemma mset_insort_cmp: "mset (insort_cmp before x xs) = add_mset x (mset xs)"
  by (induction xs) simp_all

lemma mset_array_sort_by: "mset (array_sort_by before xs) = mset xs"
  by (induction xs) (simp_all add: array_sort_by_def mset_insort_cmp)

lemma mset_array_sort: "mset (array_sort cmp xs) = mset xs"
  by (simp add: array_sort_def mset_array_sort_by)

lemma array_sort_Nil_iff: "array_sort cmp xs = [] \<longleftrightarrow> xs = []"
proof
  assume "array_sort cmp xs = []"
  then have "mset xs = {#}" by (metis mset_array_sort mset.simps(1))
  then show "xs = []" by simp
qed (simp add: array_sort_def array_sort_by_def)

lemma array_sort_single: "array_sort cmp [x] = [x]"
  by (simp add: array_sort_def array_sort_by_def)

lemma mset_evaluationsByCorte:
  "mset (evaluationsByCorte lc evs c) = mset (filter (\<lambda>ev. ev_corte ev = c) evs)"
  by (simp add: evaluationsByCorte_def mset_array_sort)

lemma evaluationsByCorte_Nil_iff:
  "evaluationsByCorte lc evs c = [] \<longleftrightarrow> filter (\<lambda>ev. ev_corte ev = c) evs = []"
  by (simp add: evaluationsByCorte_def array_sort_Nil_iff)

subsection \<open>Grade lookup\<close>

lemma scoreOrZero_getGrade: "scoreOrZero (getGrade gs sid eid) = spec_score gs sid eid"
  by (induction gs) (auto simp: getGrade_def scoreOrZero_def spec_score_def gradeKey_def)

lemma getGrade_first_match:
  assumes "list_all (\<lambda>g'. gradeKey g' \<noteq> (sid, eid)) pre" and "gradeKey g = (sid, eid)"
  shows "getGrade (pre @ g # rest) sid eid = Some g"
  using assms by (induction pre) (auto simp: getGrade_def gradeKey_def)

lemma find_unique_key:
  "distinct (map k xs) \<Longrightarrow> (find (\<lambda>x. k x = a) xs = Some y) = (y \<in> set xs \<and> k y = a)"
proof (induction xs)
  case Nil
  show ?case by simp
next
  case (Cons x xs)
  from Cons.prems have nx: "k x \<notin> k ` set xs" and dx: "distinct (map k xs)" by simp_all
  show ?case
  proof (cases "k x = a")
    case True
    then have "\<And>z. z \<in> set xs \<Longrightarrow> k z \<noteq> a" using nx by blast
    with True show ?thesis by auto
  next
    case False
    then show ?thesis using Cons.IH [OF dx] by auto
  qed
qed

lemma getGrade_iff:
  assumes "distinct (map gradeKey gs)"
  shows "(getGrade gs sid eid = Some g) = (g \<in> set gs \<and> gradeKey g = (sid, eid))"
proof -
  have "getGrade gs sid eid = find (\<lambda>x. gradeKey x = (sid, eid)) gs"
    by (simp add: getGrade_def gradeKey_def)
  then show ?thesis using find_unique_key [OF assms] by simp
qed

lemma getGrade_perm:
  assumes d: "distinct (map gradeKey gs)" and p: "mset gs' = mset gs"
  shows "getGrade gs' = getGrade gs"
proof (intro ext)
  fix sid eid
  have "mset (map gradeKey gs') = mset (map gradeKey gs)" using p by simp
  then have d': "distinct (map gradeKey gs')" using d by (metis mset_eq_imp_distinct_iff)
  have s: "set gs' = set gs" using p by (metis set_mset_mset)
  have "\<And>g. (getGrade gs' sid eid = Some g) = (getGrade gs sid eid = Some g)"
    by (simp add: getGrade_iff [OF d] getGrade_iff [OF d'] s)
  then show "getGrade gs' sid eid = getGrade gs sid eid"
    by (metis option.exhaust)
qed

subsection \<open>Aggregation\<close>

lemma calculateCorteTotal_spec:
  "calculateCorteTotal lc evs gs sid c = spec_weightedSum gs sid (evaluationsByCorte lc evs c)"
  by (simp add: calculateCorteTotal_def Let_def scoreOrZero_getGrade spec_weightedSum_def
      spec_weighted_def)

lemma calculateWeightedCorteSum_spec:
  "calculateWeightedCorteSum lc evs gs sid c
     = spec_weightedSum gs sid (evaluationsByCorte lc evs c)"
  by (simp add: calculateWeightedCorteSum_def Let_def scoreOrZero_getGrade spec_weightedSum_def
      spec_weighted_def)

lemma reportFinalGrade_spec:
  "reportFinalGrade evs gs sid = spec_weightedSum gs sid evs"
  by (simp add: reportFinalGrade_def Let_def scoreOrZero_getGrade spec_weightedSum_def
      spec_weighted_def)

lemma spec_percentageSum_fold:
  "foldl (\<lambda>total ev. nadd total (ev_percentage ev)) (Num 0) evs = spec_percentageSum evs"
  by (simp add: spec_percentageSum_def)

lemma ngt_zero_not_nseq: "ngt a (Num 0) \<Longrightarrow> \<not> nseq a (Num 0)"
  by (cases a) (simp_all add: ngt_def)

lemma calculateNormalizedCorteGrade_cases:
  "calculateNormalizedCorteGrade lc evs gs sid c =
     (if evaluationsByCorte lc evs c = [] then Num 0
      else if nseq (spec_percentageSum (evaluationsByCorte lc evs c)) (Num 0) then Num 0
      else ndiv (calculateWeightedCorteSum lc evs gs sid c)
             (ndiv (spec_percentageSum (evaluationsByCorte lc evs c)) (Num 100)))"
  by (simp add: calculateNormalizedCorteGrade_def Let_def spec_percentageSum_fold)

lemma emailNormalizedGrade_cases:
  "emailNormalizedGrade lc evs gs sid c =
     (if evaluationsByCorte lc evs c = [] then None
      else if ngt (spec_percentageSum (evaluationsByCorte lc evs c)) (Num 0)
        then Some (ndiv (calculateWeightedCorteSum lc evs gs sid c)
                     (ndiv (spec_percentageSum (evaluationsByCorte lc evs c)) (Num 100)))
      else Some (Num 0))"
  by (simp add: emailNormalizedGrade_def calculateWeightedCorteSum_def Let_def
      spec_percentageSum_fold)

lemma reportNormalizedScore_cases:
  "reportNormalizedScore evs gs sid c =
     (if filter (\<lambda>ev. ev_corte ev = c) evs = [] then None
      else if ngt (spec_percentageSum (filter (\<lambda>ev. ev_corte ev = c) evs)) (Num 0)
        then Some (ndiv (spec_weightedSum gs sid (filter (\<lambda>ev. ev_corte ev = c) evs))
                     (ndiv (spec_percentageSum (filter (\<lambda>ev. ev_corte ev = c) evs)) (Num 100)))
      else Some (Num 0))"
  by (simp add: reportNormalizedScore_def Let_def spec_percentageSum_fold
      scoreOrZero_getGrade spec_weightedSum_def spec_weighted_def)

subsection \<open>Distribution buckets\<close>

lemma in_range_cases:
  assumes "nle (Num 0) s" "nle s (Num 20)"
  obtains x where "s = Num x" "0 \<le> x" "x \<le> 20"
  using assms by (cases s) simp_all

lemma bucketStep_explicit:
  "bucketStep [a, b, c, d, e] s =
     (if nlt s (Num 4) then [a + 1, b, c, d, e]
      else if nlt s (Num 8) then [a, b + 1, c, d, e]
      else if nlt s (Num 12) then [a, b, c + 1, d, e]
      else if nlt s (Num 16) then [a, b, c, d + 1, e]
      else [a, b, c, d, e + 1])"
  by (simp add: bucketStep_def)

lemma bucketStep_spec:
  assumes "nle (Num 0) s" "nle s (Num 20)"
  shows "bucketStep [a, b, c, d, e] s =
     [a + (if spec_inBucket 0 s then 1 else 0), b + (if spec_inBucket 1 s then 1 else 0),
      c + (if spec_inBucket 2 s then 1 else 0), d + (if spec_inBucket 3 s then 1 else 0),
      e + (if spec_inBucket 4 s then 1 else 0)]"
proof -
  from assms obtain x where "s = Num x" "0 \<le> x" "x \<le> 20" by (rule in_range_cases)
  then show ?thesis by (simp add: bucketStep_explicit spec_inBucket_def)
qed

lemma foldl_bucketStep_counts:
  assumes "\<forall>s \<in> set scores. nle (Num 0) s \<and> nle s (Num 20)"
  shows "foldl bucketStep [a, b, c, d, e] scores =
     [a + bucketCount 0 scores, b + bucketCount 1 scores, c + bucketCount 2 scores,
      d + bucketCount 3 scores, e + bucketCount 4 scores]"
  using assms
proof (induction scores arbitrary: a b c d e)
  case Nil
  show ?case by (simp add: bucketCount_def)
next
  case (Cons s scores)
  then have r: "nle (Num 0) s" "nle s (Num 20)"
    and rest: "\<forall>s \<in> set scores. nle (Num 0) s \<and> nle s (Num 20)"
    by simp_all
  show ?case
    unfolding foldl_Cons bucketStep_spec [OF r] Cons.IH [OF rest]
    by (simp add: bucketCount_def)
qed

lemma foldl_bucketStep_shape:
  "\<exists>a' b' c' d' e'. foldl bucketStep [a, b, c, d, e] scores = [a', b', c', d', e']
      \<and> a' + b' + c' + d' + e' = a + b + c + d + e + length scores"
proof (induction scores arbitrary: a b c d e)
  case Nil
  show ?case by simp
next
  case (Cons s scores)
  have "\<exists>a1 b1 c1 d1 e1. bucketStep [a, b, c, d, e] s = [a1, b1, c1, d1, e1]
      \<and> a1 + b1 + c1 + d1 + e1 = a + b + c + d + e + 1"
    by (simp add: bucketStep_explicit)
  then obtain a1 b1 c1 d1 e1 where st: "bucketStep [a, b, c, d, e] s = [a1, b1, c1, d1, e1]"
    and sm: "a1 + b1 + c1 + d1 + e1 = a + b + c + d + e + 1"
    by blast
  from Cons.IH [of a1 b1 c1 d1 e1] sm st show ?case by auto
qed

lemma in_exactly_one_bucket:
  assumes "nle (Num 0) s" "nle s (Num 20)"
  shows "\<exists>!i. i < 5 \<and> spec_inBucket i s"
proof -
  from assms obtain x where s: "s = Num x" and x: "0 \<le> x" "x \<le> 20" by (rule in_range_cases)
  consider "x < 4" | "4 \<le> x" "x < 8" | "8 \<le> x" "x < 12" | "12 \<le> x" "x < 16" | "16 \<le> x"
    by linarith
  then show ?thesis
  proof cases
    case 1
    show ?thesis
    proof (rule ex1I [of _ 0])
      show "(0::nat) < 5 \<and> spec_inBucket 0 s" using 1 x s by (simp add: spec_inBucket_def)
    next
      fix i assume "i < 5 \<and> spec_inBucket i s"
      then show "i = 0" using 1 s by (simp add: spec_inBucket_def split: if_splits)
    qed
  next
    case 2
    show ?thesis
    proof (rule ex1I [of _ 1])
      show "(1::nat) < 5 \<and> spec_inBucket 1 s" using 2 s by (simp add: spec_inBucket_def)
    next
      fix i assume "i < 5 \<and> spec_inBucket i s"
      then show "i = 1" using 2 s by (simp add: spec_inBucket_def split: if_splits)
    qed
  next
    case 3
    show ?thesis
    proof (rule ex1I [of _ 2])
      show "(2::nat) < 5 \<and> spec_inBucket 2 s" using 3 s by (simp add: spec_inBucket_def)
    next
      fix i assume "i < 5 \<and> spec_inBucket i s"
      then show "i = 2" using 3 s by (simp add: spec_inBucket_def split: if_splits)
    qed
  next
    case 4
    show ?thesis
    proof (rule ex1I [of _ 3])
      show "(3::nat) < 5 \<and> spec_inBucket 3 s" using 4 s by (simp add: spec_inBucket_def)
    next
      fix i assume "i < 5 \<and> spec_inBucket i s"
      then show "i = 3" using 4 s by (simp add: spec_inBucket_def split: if_splits)
    qed
  next
    case 5
    show ?thesis
    proof (rule ex1I [of _ 4])
      show "(4::nat) < 5 \<and> spec_inBucket 4 s" using 5 x s by (simp add: spec_inBucket_def)
    next
      fix i assume "i < 5 \<and> spec_inBucket i s"
      then show "i = 4" using 5 s by (simp add: spec_inBucket_def split: if_splits)
    qed
  qed
qed

lemma distribution_calculateStats:
  "distribution (calculateStats studentScores pg)
     = foldl bucketStep [0, 0, 0, 0, 0] (map ns_score studentScores)"
  by (simp add: calculateStats_def Let_def)

subsection \<open>CSV rows\<close>

lemma scoreOrZero_null_zero:
  "scoreOrZero (getGrade (gs1 @ g\<lparr>score := None\<rparr> # gs2) sid eid)
     = scoreOrZero (getGrade (gs1 @ g\<lparr>score := Some (Num 0)\<rparr> # gs2) sid eid)"
  by (induction gs1) (simp_all add: getGrade_def scoreOrZero_def)

lemma csvStudentRow_null_zero:
  "csvStudentRow toFixed lc evs (gs1 @ g\<lparr>score := None\<rparr> # gs2) student
     = csvStudentRow toFixed lc evs (gs1 @ g\<lparr>score := Some (Num 0)\<rparr> # gs2) student"
proof -
  have "csvEvalStep toFixed (gs1 @ g\<lparr>score := None\<rparr> # gs2) (st_id student)
      = csvEvalStep toFixed (gs1 @ g\<lparr>score := Some (Num 0)\<rparr> # gs2) (st_id student)"
    by (intro ext) (simp add: csvEvalStep_def Let_def scoreOrZero_null_zero split: prod.splits)
  then have "csvCorteStep toFixed (gs1 @ g\<lparr>score := None\<rparr> # gs2) (st_id student)
      = csvCorteStep toFixed (gs1 @ g\<lparr>score := Some (Num 0)\<rparr> # gs2) (st_id student)"
    by (intro ext) (simp add: csvCorteStep_def split: prod.splits)
  then show ?thesis
    by (simp add: csvStudentRow_def)
qed

subsection \<open>Validator\<close>




lemma handleSaveEvaluation_checked:
  assumes "parseFloat (ne_percentage (sv_newEval st)) \<noteq> NaN"
    and "trim (ne_name (sv_newEval st)) \<noteq> []"
    and "\<not> nle (parseFloat (ne_percentage (sv_newEval st))) (Num 0)"
  shows "handleSaveEvaluation parseFloat parseInt onAdd onUpd subject_id st =
     (let subjEvals = subjectEvaluations (sv_evaluations st) subject_id;
          p = parseFloat (ne_percentage (sv_newEval st));
          c = parseInt (ne_corte (sv_newEval st));
          forThisCorte = percentageForThisCorte subjEvals (sv_editingEvaluation st) c;
          withoutEdited = currentTotalWithoutEdited subjEvals (sv_editingEvaluation st)
      in if ngt (nadd forThisCorte p) (CORTE_PERCENTAGES c)
         then st\<lparr>sv_error := Some (CorteBudgetExceeded c (CORTE_PERCENTAGES c)
                                   (nsub (CORTE_PERCENTAGES c) forThisCorte))\<rparr>
         else if ngt (nadd withoutEdited p) (Num 100)
         then st\<lparr>sv_error := Some (TotalBudgetExceeded (nsub (Num 100) withoutEdited))\<rparr>
         else handleCloseEvalModal
           (st\<lparr>sv_evaluations :=
              (case sv_editingEvaluation st of
                 Some e \<Rightarrow>
                   onUpd (e\<lparr>ev_name := ne_name (sv_newEval st), ev_percentage := p,
                            ev_corte := c\<rparr>) (sv_evaluations st)
               | None \<Rightarrow>
                   onAdd \<lparr>ed_name = ne_name (sv_newEval st), ed_percentage = p,
                          ed_corte = c\<rparr> (sv_evaluations st))\<rparr>))"
  using assms by (simp add: handleSaveEvaluation_def Let_def)

lemma handleAddEvaluation_checked:
  assumes "parseFloat (ne_percentage (sv_newEval st)) \<noteq> NaN"
    and "trim (ne_name (sv_newEval st)) \<noteq> []"
    and "\<not> nle (parseFloat (ne_percentage (sv_newEval st))) (Num 0)"
    and "\<not> ngt (parseFloat (ne_percentage (sv_newEval st))) (Num 100)"
  shows "handleAddEvaluation parseFloat parseInt onAdd subject_id st =
     (let total = totalPercentage (subjectEvaluations (sv_evaluations st) subject_id);
          p = parseFloat (ne_percentage (sv_newEval st))
      in if ngt (nadd total p) (Num 100)
         then st\<lparr>sv_error := Some (TotalExceeded (nsub (Num 100) total))\<rparr>
         else st\<lparr>sv_evaluations :=
                    onAdd \<lparr>ed_name = ne_name (sv_newEval st), ed_percentage = p,
                           ed_corte = parseInt (ne_corte (sv_newEval st))\<rparr> (sv_evaluations st),
                  sv_newEval := \<lparr>ne_name = '''', ne_percentage = '''', ne_corte = ''1''\<rparr>,
                  sv_error := None,
                  sv_isEvalModalOpen := False\<rparr>)"
  using assms by (simp add: handleAddEvaluation_def Let_def)

lemma handleSaveEvaluation_rejected:
  assumes "spec_saveRejected parseFloat parseInt subject_id st"
  shows "sv_error (handleSaveEvaluation parseFloat parseInt onAdd onUpd subject_id st) \<noteq> None
    \<and> handleSaveEvaluation parseFloat parseInt onAdd onUpd subject_id st
        = st\<lparr>sv_error := sv_error (handleSaveEvaluation parseFloat parseInt onAdd onUpd subject_id st)\<rparr>"
  using assms
  by (auto simp: spec_saveRejected_def handleSaveEvaluation_def Let_def)

lemma handleSaveEvaluation_accepted:
  assumes "\<not> spec_saveRejected parseFloat parseInt subject_id st"
  shows "sv_error (handleSaveEvaluation parseFloat parseInt onAdd onUpd subject_id st) = None
    \<and> sv_evaluations (handleSaveEvaluation parseFloat parseInt onAdd onUpd subject_id st)
          = (case sv_editingEvaluation st of
               Some e \<Rightarrow>
                 onUpd (e\<lparr>ev_name := ne_name (sv_newEval st),
                          ev_percentage := parseFloat (ne_percentage (sv_newEval st)),
                          ev_corte := parseInt (ne_corte (sv_newEval st))\<rparr>) (sv_evaluations st)
             | None \<Rightarrow>
                 onAdd \<lparr>ed_name = ne_name (sv_newEval st),
                        ed_percentage = parseFloat (ne_percentage (sv_newEval st)),
                        ed_corte = parseInt (ne_corte (sv_newEval st))\<rparr> (sv_evaluations st))"
proof -
  from assms have c: "parseFloat (ne_percentage (sv_newEval st)) \<noteq> NaN"
    "trim (ne_name (sv_newEval st)) \<noteq> []"
    "\<not> nle (parseFloat (ne_percentage (sv_newEval st))) (Num 0)"
    "\<not> ngt (nadd (percentageForThisCorte (subjectEvaluations (sv_evaluations st) subject_id)
        (sv_editingEvaluation st) (parseInt (ne_corte (sv_newEval st))))
          (parseFloat (ne_percentage (sv_newEval st))))
       (CORTE_PERCENTAGES (parseInt (ne_corte (sv_newEval st))))"
    "\<not> ngt (nadd (currentTotalWithoutEdited (subjectEvaluations (sv_evaluations st) subject_id)
        (sv_editingEvaluation st)) (parseFloat (ne_percentage (sv_newEval st)))) (Num 100)"
    by (simp_all add: spec_saveRejected_def Let_def)
  show ?thesis
    using c(4,5)
    by (simp add: handleSaveEvaluation_checked [where parseFloat = parseFloat and st = st,
          OF c(1,2,3)] Let_def handleCloseEvalModal_def)
qed

lemma handleAddEvaluation_rejected:
  assumes "spec_addRejected parseFloat subject_id st"
  shows "sv_error (handleAddEvaluation parseFloat parseInt onAdd subject_id st) \<noteq> None
    \<and> handleAddEvaluation parseFloat parseInt onAdd subject_id st
        = st\<lparr>sv_error := sv_error (handleAddEvaluation parseFloat parseInt onAdd subject_id st)\<rparr>"
  using assms
  by (auto simp: spec_addRejected_def handleAddEvaluation_def Let_def)

lemma handleAddEvaluation_accepted:
  assumes "\<not> spec_addRejected parseFloat subject_id st"
  shows "sv_error (handleAddEvaluation parseFloat parseInt onAdd subject_id st) = None
    \<and> sv_evaluations (handleAddEvaluation parseFloat parseInt onAdd subject_id st)
          = onAdd \<lparr>ed_name = ne_name (sv_newEval st),
                   ed_percentage = parseFloat (ne_percentage (sv_newEval st)),
                   ed_corte = parseInt (ne_corte (sv_newEval st))\<rparr> (sv_evaluations st)"
proof -
  from assms have c: "parseFloat (ne_percentage (sv_newEval st)) \<noteq> NaN"
    "trim (ne_name (sv_newEval st)) \<noteq> []"
    "\<not> nle (parseFloat (ne_percentage (sv_newEval st))) (Num 0)"
    "\<not> ngt (parseFloat (ne_percentage (sv_newEval st))) (Num 100)"
    "\<not> ngt (nadd (totalPercentage (subjectEvaluations (sv_evaluations st) subject_id))
          (parseFloat (ne_percentage (sv_newEval st)))) (Num 100)"
    by (simp_all add: spec_addRejected_def Let_def)
  show ?thesis
    using c(5)
    by (simp add: handleAddEvaluation_checked [where parseFloat = parseFloat and st = st,
          OF c(1,2,3,4)] Let_def)
qed

lemmas sample_defs = parseFloatSample_def parseIntSample_def onAddSample_def onUpdateSample_def
  taller20_def editState_def fullSubject_def legacySubject_def legacyEditState_def addState_def addStateIn_def
  quizEval_def

lemmas validator_defs = handleSaveEvaluation_def handleAddEvaluation_def
  handleCloseEvalModal_def subjectEvaluations_def totalPercentage_def
  percentageForThisCorte_def currentTotalWithoutEdited_def trim_def isWhiteSpace_def Let_def

subsection \<open>Arithmetic on the sample values\<close>

text \<open>
  The results of the operations that the concrete inputs need, each checked through
  \<open>fl_eval\<close> with the exponent of the exact result.
\<close>

lemma arith_1:
  "ndiv (Num 30) (Num 100) = Num (5404319552844595 / 18014398509481984)"
  by (simp add: ndiv_def) (subst fl_eval [where k = 54], simp_all add: roundTiesToEven_def)

lemma arith_2:
  "nmul (Num 15) (Num (5404319552844595 / 18014398509481984)) = Num (9 / 2)"
  by (simp add: nmul_def) (subst fl_eval [where k = 50], simp_all add: roundTiesToEven_def)

lemma arith_3:
  "nadd (Num 0) (Num (9 / 2)) = Num (9 / 2)"
  by (simp add: nadd_def) (subst fl_eval [where k = 50], simp_all add: roundTiesToEven_def)

lemma arith_4:
  "nmul (Num 10) (Num (5404319552844595 / 18014398509481984)) = Num 3"
  by (simp add: nmul_def) (subst fl_eval [where k = 51], simp_all add: roundTiesToEven_def)

lemma arith_5:
  "nadd (Num 0) (Num 3) = Num 3"
  by (simp add: nadd_def) (subst fl_eval [where k = 51], simp_all add: roundTiesToEven_def)

lemma arith_6:
  "nadd (Num 0) (Num 30) = Num 30"
  by (simp add: nadd_def) (subst fl_eval [where k = 48], simp_all add: roundTiesToEven_def)

lemma arith_7:
  "ndiv (Num (9 / 2)) (Num (5404319552844595 / 18014398509481984)) = Num 15"
  by (simp add: ndiv_def) (subst fl_eval [where k = 49], simp_all add: roundTiesToEven_def)

lemma arith_8:
  "ndiv (Num 3) (Num (5404319552844595 / 18014398509481984)) = Num 10"
  by (simp add: ndiv_def) (subst fl_eval [where k = 49], simp_all add: roundTiesToEven_def)

lemma arith_9:
  "nadd (Num (9 / 2)) (Num 0) = Num (9 / 2)"
  by (simp add: nadd_def) (subst fl_eval [where k = 50], simp_all add: roundTiesToEven_def)

lemma arith_10:
  "nadd (Num 3) (Num 0) = Num 3"
  by (simp add: nadd_def) (subst fl_eval [where k = 51], simp_all add: roundTiesToEven_def)

lemma arith_11:
  "nmul (Num 0) (Num (5404319552844595 / 18014398509481984)) = Num 0"
  by (simp add: nmul_def fl_def)

lemma arith_12:
  "nadd (Num 0) (Num 0) = Num 0"
  by (simp add: nadd_def fl_def)

lemma arith_13:
  "ndiv (Num 0) (Num 100) = Num 0"
  by (simp add: ndiv_def fl_def)

lemma arith_14:
  "nmul (Num 15) (Num 0) = Num 0"
  by (simp add: nmul_def fl_def)

lemma arith_15:
  "ndiv (Num 10) (Num 100) = Num (3602879701896397 / 36028797018963968)"
  by (simp add: ndiv_def) (subst fl_eval [where k = 56], simp_all add: roundTiesToEven_def)

lemma arith_16:
  "ndiv (Num 15) (Num 100) = Num (5404319552844595 / 36028797018963968)"
  by (simp add: ndiv_def) (subst fl_eval [where k = 55], simp_all add: roundTiesToEven_def)

lemma arith_17:
  "nmul (Num 10) (Num (3602879701896397 / 36028797018963968)) = Num 1"
  by (simp add: nmul_def) (subst fl_eval [where k = 52], simp_all add: roundTiesToEven_def)

lemma arith_18:
  "nmul (Num (21 / 2)) (Num (3602879701896397 / 36028797018963968)) = Num (4728779608739021 / 4503599627370496)"
  by (simp add: nmul_def) (subst fl_eval [where k = 52], simp_all add: roundTiesToEven_def)

lemma arith_19:
  "nmul (Num (27 / 2)) (Num (5404319552844595 / 36028797018963968)) = Num (4559894622712627 / 2251799813685248)"
  by (simp add: nmul_def) (subst fl_eval [where k = 51], simp_all add: roundTiesToEven_def)

lemma arith_20:
  "nadd (Num 0) (Num 1) = Num 1"
  by (simp add: nadd_def) (subst fl_eval [where k = 52], simp_all add: roundTiesToEven_def)

lemma arith_21:
  "nadd (Num 1) (Num (4728779608739021 / 4503599627370496)) = Num (2308094809027379 / 1125899906842624)"
  by (simp add: nadd_def) (subst fl_eval [where k = 51], simp_all add: roundTiesToEven_def)

lemma arith_22:
  "nadd (Num (2308094809027379 / 1125899906842624)) (Num (4559894622712627 / 2251799813685248)) = Num (1147010530095923 / 281474976710656)"
  by (simp add: nadd_def) (subst fl_eval [where k = 50], simp_all add: roundTiesToEven_def)

lemma arith_23:
  "nadd (Num 1) (Num (4559894622712627 / 2251799813685248)) = Num (6811694436397875 / 2251799813685248)"
  by (simp add: nadd_def) (subst fl_eval [where k = 51], simp_all add: roundTiesToEven_def)

lemma arith_24:
  "nadd (Num (6811694436397875 / 2251799813685248)) (Num (4728779608739021 / 4503599627370496)) = Num (4588042120383693 / 1125899906842624)"
  by (simp add: nadd_def) (subst fl_eval [where k = 50], simp_all add: roundTiesToEven_def)

lemma arith_25:
  "nadd (Num (4588042120383693 / 1125899906842624)) (Num 0) = Num (4588042120383693 / 1125899906842624)"
  by (simp add: nadd_def) (subst fl_eval [where k = 50], simp_all add: roundTiesToEven_def)

lemma arith_26:
  "nadd (Num 0) (Num (4588042120383693 / 1125899906842624)) = Num (4588042120383693 / 1125899906842624)"
  by (simp add: nadd_def) (subst fl_eval [where k = 50], simp_all add: roundTiesToEven_def)

lemma arith_27:
  "nadd (Num 0) (Num 25) = Num 25"
  by (simp add: nadd_def) (subst fl_eval [where k = 48], simp_all add: roundTiesToEven_def)

lemma arith_28:
  "nadd (Num 0) (Num 35) = Num 35"
  by (simp add: nadd_def) (subst fl_eval [where k = 47], simp_all add: roundTiesToEven_def)

lemma arith_29:
  "nsub (Num 30) (Num 0) = Num 30"
  by (simp add: nsub_def nneg_def nadd_def) (subst fl_eval [where k = 48], simp_all add: roundTiesToEven_def)

lemma arith_30:
  "nadd (Num 0) (Num 20) = Num 20"
  by (simp add: nadd_def) (subst fl_eval [where k = 48], simp_all add: roundTiesToEven_def)

lemma arith_31:
  "nsub (Num 20) (Num 20) = Num 0"
  by (simp add: nsub_def nneg_def nadd_def fl_def)

lemma arith_32:
  "nsub (Num 20) (Num 0) = Num 20"
  by (simp add: nsub_def nneg_def nadd_def) (subst fl_eval [where k = 48], simp_all add: roundTiesToEven_def)

lemma arith_33:
  "nadd (Num 0) (Num 80) = Num 80"
  by (simp add: nadd_def) (subst fl_eval [where k = 46], simp_all add: roundTiesToEven_def)

lemma arith_34:
  "nsub (Num 80) (Num 0) = Num 80"
  by (simp add: nsub_def nneg_def nadd_def) (subst fl_eval [where k = 46], simp_all add: roundTiesToEven_def)

lemma arith_35:
  "nadd (Num 80) (Num 30) = Num 110"
  by (simp add: nadd_def) (subst fl_eval [where k = 46], simp_all add: roundTiesToEven_def)

lemma arith_36:
  "nsub (Num 100) (Num 80) = Num 20"
  by (simp add: nsub_def nneg_def nadd_def) (subst fl_eval [where k = 48], simp_all add: roundTiesToEven_def)

lemma arith_37:
  "nadd (Num 0) (Num 10) = Num 10"
  by (simp add: nadd_def) (subst fl_eval [where k = 49], simp_all add: roundTiesToEven_def)

lemma arith_38:
  "nadd (Num 10) (Num 30) = Num 40"
  by (simp add: nadd_def) (subst fl_eval [where k = 47], simp_all add: roundTiesToEven_def)

lemma arith_39:
  "nsub (Num 30) (Num 10) = Num 20"
  by (simp add: nsub_def nneg_def nadd_def) (subst fl_eval [where k = 48], simp_all add: roundTiesToEven_def)

lemma arith_40:
  "nadd (Num 40) (Num 40) = Num 80"
  by (simp add: nadd_def) (subst fl_eval [where k = 46], simp_all add: roundTiesToEven_def)

lemma arith_41:
  "nsub (Num 0) (Num 0) = Num 0"
  by (simp add: nsub_def nneg_def nadd_def fl_def)

lemma arith_42:
  "nadd (Num 30) (Num 10) = Num 40"
  by (simp add: nadd_def) (subst fl_eval [where k = 47], simp_all add: roundTiesToEven_def)

lemma arith_43:
  "nsub (Num 30) (Num 30) = Num 0"
  by (simp add: nsub_def nneg_def nadd_def fl_def)

lemma arith_44:
  "nadd (Num 0) (Num (3602879701896397 / 36028797018963968)) = Num (3602879701896397 / 36028797018963968)"
  by (simp add: nadd_def) (subst fl_eval [where k = 56], simp_all add: roundTiesToEven_def)

lemma arith_45:
  "nadd (Num (3602879701896397 / 36028797018963968)) (Num (2265873562520781 / 140737488355328)) = Num (1139973655678157 / 70368744177664)"
  by (simp add: nadd_def) (subst fl_eval [where k = 48], simp_all add: roundTiesToEven_def)

lemma arith_46:
  "nadd (Num (1139973655678157 / 70368744177664)) (Num (3884354678607053 / 281474976710656)) = Num (8444249301319681 / 281474976710656)"
  by (simp add: nadd_def) (subst fl_eval [where k = 48], simp_all add: roundTiesToEven_def)

lemma arith_47:
  "nsub (Num 30) (Num (1139973655678157 / 70368744177664)) = Num (971088669651763 / 70368744177664)"
  by (simp add: nsub_def nneg_def nadd_def) (subst fl_eval [where k = 49], simp_all add: roundTiesToEven_def)

lemma arith_48:
  "nadd (Num 0) (Num (4517673376206029 / 140737488355328)) = Num (4517673376206029 / 140737488355328)"
  by (simp add: nadd_def) (subst fl_eval [where k = 47], simp_all add: roundTiesToEven_def)

lemma arith_49:
  "nadd (Num (4517673376206029 / 140737488355328)) (Num (4447304632028365 / 562949953421312)) = Num 40"
  by (simp add: nadd_def) (subst fl_eval [where k = 47], simp_all add: roundTiesToEven_def)

lemma arith_50:
  "nadd (Num (4517673376206029 / 140737488355328)) (Num (3602879701896397 / 18014398509481984)) = Num (4545820873877095 / 140737488355328)"
  by (simp add: nadd_def) (subst fl_eval [where k = 47], simp_all add: roundTiesToEven_def)

lemma arith_51:
  "nadd (Num (4545820873877095 / 140737488355328)) (Num (8387954305977549 / 281474976710656)) = Num (4369899013432935 / 70368744177664)"
  by (simp add: nadd_def) (subst fl_eval [where k = 47], simp_all add: roundTiesToEven_def)

lemma arith_52:
  "nadd (Num (4369899013432935 / 70368744177664)) (Num 30) = Num (6480961338762855 / 70368744177664)"
  by (simp add: nadd_def) (subst fl_eval [where k = 46], simp_all add: roundTiesToEven_def)

lemma arith_53:
  "nsub (Num (6480961338762855 / 70368744177664)) (Num 0) = Num (6480961338762855 / 70368744177664)"
  by (simp add: nsub_def nneg_def nadd_def) (subst fl_eval [where k = 46], simp_all add: roundTiesToEven_def)

lemma arith_54:
  "nadd (Num (6480961338762855 / 70368744177664)) (Num (4447304632028365 / 562949953421312)) = Num (7036874417766401 / 70368744177664)"
  by (simp add: nadd_def) (subst fl_eval [where k = 46], simp_all add: roundTiesToEven_def)

lemma arith_55:
  "nsub (Num 100) (Num (6480961338762855 / 70368744177664)) = Num (555913079003545 / 70368744177664)"
  by (simp add: nsub_def nneg_def nadd_def) (subst fl_eval [where k = 50], simp_all add: roundTiesToEven_def)

lemma arith_56:
  "nadd (Num 0) (Num (3884354678607053 / 281474976710656)) = Num (3884354678607053 / 281474976710656)"
  by (simp add: nadd_def) (subst fl_eval [where k = 49], simp_all add: roundTiesToEven_def)

lemma arith_57:
  "nadd (Num (3884354678607053 / 281474976710656)) (Num (3602879701896397 / 36028797018963968)) = Num (7825004352556237 / 562949953421312)"
  by (simp add: nadd_def) (subst fl_eval [where k = 49], simp_all add: roundTiesToEven_def)

lemma arith_58:
  "nadd (Num (7825004352556237 / 562949953421312)) (Num (2265873562520781 / 140737488355328)) = Num 30"
  by (simp add: nadd_def) (subst fl_eval [where k = 48], simp_all add: roundTiesToEven_def)

lemma arith_59:
  "nadd (Num 20) (Num 80) = Num 100"
  by (simp add: nadd_def) (subst fl_eval [where k = 46], simp_all add: roundTiesToEven_def)

lemma arith_60:
  "nsub (Num 100) (Num 20) = Num 80"
  by (simp add: nsub_def nneg_def nadd_def) (subst fl_eval [where k = 46], simp_all add: roundTiesToEven_def)

lemma arith_61:
  "nadd (Num 80) (Num 20) = Num 100"
  by (simp add: nadd_def) (subst fl_eval [where k = 46], simp_all add: roundTiesToEven_def)

lemmas arith = arith_1 arith_2 arith_3 arith_4 arith_5 arith_6 arith_7 arith_8
  arith_9 arith_10 arith_11 arith_12 arith_13 arith_14 arith_15 arith_16
  arith_17 arith_18 arith_19 arith_20 arith_21 arith_22 arith_23 arith_24
  arith_25 arith_26 arith_27 arith_28 arith_29 arith_30 arith_31 arith_32
  arith_33 arith_34 arith_35 arith_36 arith_37 arith_38 arith_39 arith_40
  arith_41 arith_42 arith_43 arith_44 arith_45 arith_46 arith_47 arith_48
  arith_49 arith_50 arith_51 arith_52 arith_53 arith_54 arith_55
  arith_56 arith_57 arith_58
  arith_59 arith_60 arith_61
subsection \<open>Values on the concrete inputs\<close>

lemma quiz_values:
  "evaluationsByCorte (\<lambda>a b. 0) [quizEval] Corte1 = [quizEval]"
  "spec_percentageSum [quizEval] = Num 30"
  "spec_weightedSum [quizGrade] ''s1'' [quizEval] = Num (9 / 2)"
  "calculateWeightedCorteSum (\<lambda>a b. 0) [quizEval] [quizGrade] ''s1'' Corte1 = Num (9 / 2)"
  "filter (\<lambda>ev. ev_corte ev = Corte1) [quizEval] = [quizEval]"
  "filter (\<lambda>ev. ev_corte ev = Corte2) [quizEval] = []"
proof -
  show e: "evaluationsByCorte (\<lambda>a b. 0) [quizEval] Corte1 = [quizEval]"
    by (simp add: evaluationsByCorte_def array_sort_single quizEval_def)
  show "spec_percentageSum [quizEval] = Num 30"
    by (simp add: spec_percentageSum_def quizEval_def arith)
  show w: "spec_weightedSum [quizGrade] ''s1'' [quizEval] = Num (9 / 2)"
    by (simp add: spec_weightedSum_def spec_weighted_def spec_score_def gradeKey_def
        quizEval_def quizGrade_def arith)
  show "calculateWeightedCorteSum (\<lambda>a b. 0) [quizEval] [quizGrade] ''s1'' Corte1 = Num (9 / 2)"
    by (simp add: calculateWeightedCorteSum_spec e w)
  show "filter (\<lambda>ev. ev_corte ev = Corte1) [quizEval] = [quizEval]"
    "filter (\<lambda>ev. ev_corte ev = Corte2) [quizEval] = []"
    by (simp_all add: quizEval_def)
qed

lemma zero_values:
  "evaluationsByCorte (\<lambda>a b. 0) [zeroEval] Corte1 = [zeroEval]"
  "spec_percentageSum [zeroEval] = Num 0"
  "calculateWeightedCorteSum (\<lambda>a b. 0) [zeroEval] [quizGrade] ''s1'' Corte1 = Num 0"
  "filter (\<lambda>ev. ev_corte ev = Corte1) [zeroEval] = [zeroEval]"
proof -
  show e: "evaluationsByCorte (\<lambda>a b. 0) [zeroEval] Corte1 = [zeroEval]"
    by (simp add: evaluationsByCorte_def array_sort_single zeroEval_def)
  show "spec_percentageSum [zeroEval] = Num 0"
    by (simp add: spec_percentageSum_def zeroEval_def arith)
  have w: "spec_weightedSum [quizGrade] ''s1'' [zeroEval] = Num 0"
    by (simp add: spec_weightedSum_def spec_weighted_def spec_score_def gradeKey_def
        zeroEval_def quizGrade_def arith)
  show "calculateWeightedCorteSum (\<lambda>a b. 0) [zeroEval] [quizGrade] ''s1'' Corte1 = Num 0"
    by (simp add: calculateWeightedCorteSum_spec e w)
  show "filter (\<lambda>ev. ev_corte ev = Corte1) [zeroEval] = [zeroEval]"
    by (simp add: zeroEval_def)
qed

lemma dup_values:
  "spec_weightedSum [dupA, dupB] ''s1'' [quizEval] = Num (9 / 2)"
  "spec_weightedSum [dupB, dupA] ''s1'' [quizEval] = Num 3"
  by (simp_all add: spec_weightedSum_def spec_weighted_def spec_score_def gradeKey_def
      quizEval_def dupA_def dupB_def arith)

lemma order_lists:
  "evaluationsByCorte localeCompareSample orderEvals Corte1
     = [evalA, evalB, evalC]"
  "evaluationsByCorte localeCompareSample orderEvals Corte2 = []"
  "evaluationsByCorte localeCompareSample orderEvals Corte3 = []"
  "csvCorteEvals localeCompareSample orderEvals
     = [[evalA, evalB, evalC], [], []]"
  by (simp_all add: evaluationsByCorte_def csvCorteEvals_def array_sort_def array_sort_by_def
      localeCompareSample_def orderEvals_def evalA_def evalB_def evalC_def Let_def)

lemma order_values:
  "spec_weightedSum orderGrades ''s1'' orderEvals = Num (1147010530095923 / 281474976710656)"
  "spec_weightedSum orderGrades ''s1'' [evalA, evalB, evalC]
     = Num (4588042120383693 / 1125899906842624)"
  by (simp_all add: spec_weightedSum_def spec_weighted_def spec_score_def gradeKey_def
      orderEvals_def evalA_def evalB_def evalC_def orderGrades_def arith)

text \<open>
  Two inputs on which the binary64 sums of the validator leave the decimal figures. The
  corte of 13.8%, 0.1% and 16.1% sums to 30 in list order, but with the first evaluation
  opened for editing at its own 13.8% the others sum to 16.200000000000003 and the
  proposal brings that above 30. The subject of 32.1%, 0.2%, 29.8% and 30% sums to
  92.10000000000001, and a proposal of 7.9% brings that above 100.
\<close>

lemma rounding_slips:
  "spec_percentageSum tightCorte = Num 30"
  "percentageForThisCorte tightCorte (Some tightFirst) Corte1
     = Num (1139973655678157 / 70368744177664)"
  "handleSaveEvaluation parseFloatSample parseIntSample onAddSample onUpdateSample ''subj'' tightEditState
     = tightEditState\<lparr>sv_error :=
         Some (CorteBudgetExceeded Corte1 (Num 30) (Num (971088669651763 / 70368744177664)))\<rparr>"
  "spec_percentageSum tightSubject = Num (6480961338762855 / 70368744177664)"
  "handleSaveEvaluation parseFloatSample parseIntSample onAddSample onUpdateSample ''subj'' (addStateIn tightSubject ''7.9'' ''3'')
     = (addStateIn tightSubject ''7.9'' ''3'')\<lparr>sv_error :=
         Some (TotalBudgetExceeded (Num (555913079003545 / 70368744177664)))\<rparr>"
  "handleAddEvaluation parseFloatSample parseIntSample onAddSample ''subj'' (addStateIn tightSubject ''7.9'' ''3'')
     = (addStateIn tightSubject ''7.9'' ''3'')\<lparr>sv_error :=
         Some (TotalExceeded (Num (555913079003545 / 70368744177664)))\<rparr>"
  by (simp_all add: spec_percentageSum_def sample_defs validator_defs tightCorte_def
      tightFirst_def tightEditState_def tightSubject_def arith ngt_def)

section \<open>Claims\<close>

text \<open>
  C1 (the code departs from it): the final grade of the grade table is the sum over
  cortes 1, 2, 3 of the weighted corte sum, added in that order, and the CSV export
  accumulates the same three totals. The general report instead adds score times
  percentage / 100 over all evaluations in the order of the list. In binary64 the two
  orders need not give the same number: with three evaluations of corte 1 stored as
  A (10%), C (10%), B (15%) and scores 10, 10.5, 13.5, the report computes
  4.074999999999999 (1147010530095923 / 2^48) while the grade table, both revisions, and
  the CSV export compute 4.075 (4588042120383693 / 2^50).
\<close>

theorem C1_report_differs_from_table:
  "finalGrade localeCompare evaluations grades sid
     = nadd (nadd (calculateCorteTotal localeCompare evaluations grades sid Corte1)
               (calculateCorteTotal localeCompare evaluations grades sid Corte2))
         (calculateCorteTotal localeCompare evaluations grades sid Corte3)
   \<and> reportFinalGrade orderEvals orderGrades ''s1'' = Num (1147010530095923 / 281474976710656)
   \<and> finalGrade localeCompareSample orderEvals orderGrades ''s1''
     = Num (4588042120383693 / 1125899906842624)
   \<and> finalGradeWeighted localeCompareSample orderEvals orderGrades ''s1''
     = Num (4588042120383693 / 1125899906842624)
   \<and> snd (csvStudentRow toFixed localeCompareSample orderEvals orderGrades anaStudent)
     = Num (4588042120383693 / 1125899906842624)
   \<and> reportFinalGrade orderEvals orderGrades ''s1''
     \<noteq> finalGrade localeCompareSample orderEvals orderGrades ''s1''"
proof -
  have g: "finalGrade localeCompare evaluations grades sid
     = nadd (nadd (calculateCorteTotal localeCompare evaluations grades sid Corte1)
               (calculateCorteTotal localeCompare evaluations grades sid Corte2))
         (calculateCorteTotal localeCompare evaluations grades sid Corte3)"
    by (simp add: finalGrade_def)
  have z: "\<And>gs. spec_weightedSum gs ''s1'' [] = Num 0"
    by (simp add: spec_weightedSum_def)
  have r: "reportFinalGrade orderEvals orderGrades ''s1'' = Num (1147010530095923 / 281474976710656)"
    by (simp add: reportFinalGrade_spec order_values)
  have t: "finalGrade localeCompareSample orderEvals orderGrades ''s1''
     = Num (4588042120383693 / 1125899906842624)"
    by (simp add: finalGrade_def calculateCorteTotal_spec order_lists order_values z arith)
  have t': "finalGradeWeighted localeCompareSample orderEvals orderGrades ''s1''
     = Num (4588042120383693 / 1125899906842624)"
    by (simp add: finalGradeWeighted_def calculateWeightedCorteSum_spec order_lists order_values z
        arith)
  have c: "snd (csvStudentRow toFixed localeCompareSample orderEvals orderGrades anaStudent)
     = Num (4588042120383693 / 1125899906842624)"
    by (simp add: csvStudentRow_def order_lists csvCorteStep_def csvEvalStep_def Let_def
        getGrade_def scoreOrZero_def evalA_def evalB_def evalC_def orderGrades_def anaStudent_def arith)
  have d: "reportFinalGrade orderEvals orderGrades ''s1''
     \<noteq> finalGrade localeCompareSample orderEvals orderGrades ''s1''"
    by (simp add: r t)
  show ?thesis
    by (intro conjI g r t t' c d)
qed

text \<open>
  C2: if the percentages of the corte's evaluations sum to P > 0, the normalized corte
  grade is the weighted corte sum divided by P / 100: in the grade table and the corte
  email over the evaluations in name order, in the corte report over the evaluations in
  list order. If the corte has no evaluations or P = 0, the table's result is exactly 0
  (the email and the report produce nothing for an empty corte and 0 for P = 0); the
  division is not reached, and carried out at P = 0 it would give NaN.
\<close>

theorem C2_normalizedCorteGrade:
  "(ngt (spec_percentageSum (evaluationsByCorte localeCompare evaluations c)) (Num 0) \<longrightarrow>
      calculateNormalizedCorteGrade localeCompare evaluations grades sid c
        = ndiv (calculateWeightedCorteSum localeCompare evaluations grades sid c)
            (ndiv (spec_percentageSum (evaluationsByCorte localeCompare evaluations c)) (Num 100))
      \<and> emailNormalizedGrade localeCompare evaluations grades sid c
        = Some (ndiv (calculateWeightedCorteSum localeCompare evaluations grades sid c)
            (ndiv (spec_percentageSum (evaluationsByCorte localeCompare evaluations c)) (Num 100))))
   \<and> (ngt (spec_percentageSum (filter (\<lambda>ev. ev_corte ev = c) evaluations)) (Num 0) \<longrightarrow>
      reportNormalizedScore evaluations grades sid c
        = Some (ndiv (spec_weightedSum grades sid (filter (\<lambda>ev. ev_corte ev = c) evaluations))
            (ndiv (spec_percentageSum (filter (\<lambda>ev. ev_corte ev = c) evaluations)) (Num 100))))
   \<and> (filter (\<lambda>ev. ev_corte ev = c) evaluations = []
        \<or> nseq (spec_percentageSum (evaluationsByCorte localeCompare evaluations c)) (Num 0) \<longrightarrow>
      calculateNormalizedCorteGrade localeCompare evaluations grades sid c = Num 0)
   \<and> (filter (\<lambda>ev. ev_corte ev = c) evaluations = [] \<longrightarrow>
      emailNormalizedGrade localeCompare evaluations grades sid c = None
      \<and> reportNormalizedScore evaluations grades sid c = None)
   \<and> (filter (\<lambda>ev. ev_corte ev = c) evaluations \<noteq> []
        \<and> nseq (spec_percentageSum (evaluationsByCorte localeCompare evaluations c)) (Num 0) \<longrightarrow>
      emailNormalizedGrade localeCompare evaluations grades sid c = Some (Num 0))
   \<and> (filter (\<lambda>ev. ev_corte ev = c) evaluations \<noteq> []
        \<and> nseq (spec_percentageSum (filter (\<lambda>ev. ev_corte ev = c) evaluations)) (Num 0) \<longrightarrow>
      reportNormalizedScore evaluations grades sid c = Some (Num 0))"
proof -
  have e: "spec_percentageSum [] = Num 0" by (simp add: spec_percentageSum_def)
  have z: "\<not> ngt (Num 0) (Num 0)" by (simp add: ngt_def)
  have n: "\<And>a. nseq a (Num 0) \<Longrightarrow> \<not> ngt a (Num 0)"
    using ngt_zero_not_nseq by blast
  have f: "filter (\<lambda>ev. ev_corte ev = c) evaluations = [] \<Longrightarrow>
      \<not> ngt (spec_percentageSum (evaluationsByCorte localeCompare evaluations c)) (Num 0)"
    using evaluationsByCorte_Nil_iff [of localeCompare evaluations c] by (simp add: e z)
  show ?thesis
    using ngt_zero_not_nseq f
    by (auto simp: calculateNormalizedCorteGrade_cases emailNormalizedGrade_cases
        reportNormalizedScore_cases evaluationsByCorte_Nil_iff e z n)
qed

theorem C2_normalizedCorteGrade_witness:
  "ngt (spec_percentageSum (evaluationsByCorte (\<lambda>a b. 0) [quizEval] Corte1)) (Num 0)
   \<and> calculateWeightedCorteSum (\<lambda>a b. 0) [quizEval] [quizGrade] ''s1'' Corte1 = Num (9 / 2)
   \<and> calculateNormalizedCorteGrade (\<lambda>a b. 0) [quizEval] [quizGrade] ''s1'' Corte1 = Num 15
   \<and> emailNormalizedGrade (\<lambda>a b. 0) [quizEval] [quizGrade] ''s1'' Corte1 = Some (Num 15)
   \<and> reportNormalizedScore [quizEval] [quizGrade] ''s1'' Corte1 = Some (Num 15)
   \<and> filter (\<lambda>ev. ev_corte ev = Corte2) [quizEval] = []
   \<and> calculateNormalizedCorteGrade (\<lambda>a b. 0) [quizEval] [quizGrade] ''s1'' Corte2 = Num 0
   \<and> nseq (spec_percentageSum (evaluationsByCorte (\<lambda>a b. 0) [zeroEval] Corte1)) (Num 0)
   \<and> calculateNormalizedCorteGrade (\<lambda>a b. 0) [zeroEval] [quizGrade] ''s1'' Corte1 = Num 0
   \<and> ndiv (calculateWeightedCorteSum (\<lambda>a b. 0) [zeroEval] [quizGrade] ''s1'' Corte1)
        (ndiv (spec_percentageSum (evaluationsByCorte (\<lambda>a b. 0) [zeroEval] Corte1)) (Num 100))
      = NaN"
proof -
  have h1: "ngt (spec_percentageSum (evaluationsByCorte (\<lambda>a b. 0) [quizEval] Corte1)) (Num 0)"
    by (simp add: quiz_values ngt_def)
  have h2: "ngt (spec_percentageSum (filter (\<lambda>ev. ev_corte ev = Corte1) [quizEval])) (Num 0)"
    by (simp only: quiz_values) (simp add: ngt_def)
  have h3: "filter (\<lambda>ev. ev_corte ev = Corte2) [quizEval] = []
      \<or> nseq (spec_percentageSum (evaluationsByCorte (\<lambda>a b. 0) [quizEval] Corte2)) (Num 0)"
    by (rule disjI1) (rule quiz_values)
  have h4: "nseq (spec_percentageSum (evaluationsByCorte (\<lambda>a b. 0) [zeroEval] Corte1)) (Num 0)"
    by (simp add: zero_values)
  note t = C2_normalizedCorteGrade [of "\<lambda>a b. 0" "[quizEval]" Corte1 "[quizGrade]" "''s1''"]
  note r1 = t [THEN conjunct1, THEN mp, OF h1]
  note r2 = t [THEN conjunct2, THEN conjunct1, THEN mp, OF h2]
  note r3 = C2_normalizedCorteGrade [of "\<lambda>a b. 0" "[quizEval]" Corte2 "[quizGrade]" "''s1''",
      THEN conjunct2, THEN conjunct2, THEN conjunct1, THEN mp, OF h3]
  note r4 = C2_normalizedCorteGrade [of "\<lambda>a b. 0" "[zeroEval]" Corte1 "[quizGrade]" "''s1''",
      THEN conjunct2, THEN conjunct2, THEN conjunct1, THEN mp, OF disjI2, OF h4]
  have n: "ndiv (Num (9 / 2)) (ndiv (Num 30) (Num 100)) = Num 15"
    by (simp add: arith)
  have u: "ndiv (Num 0) (ndiv (Num 0) (Num 100)) = NaN"
    by (simp add: arith) (simp add: ndiv_def)
  have v1: "calculateNormalizedCorteGrade (\<lambda>a b. 0) [quizEval] [quizGrade] ''s1'' Corte1 = Num 15"
    and v2: "emailNormalizedGrade (\<lambda>a b. 0) [quizEval] [quizGrade] ''s1'' Corte1 = Some (Num 15)"
    using r1 by (simp_all only: quiz_values n)
  have v3: "reportNormalizedScore [quizEval] [quizGrade] ''s1'' Corte1 = Some (Num 15)"
    using r2 by (simp only: quiz_values n)
  have v5: "ndiv (calculateWeightedCorteSum (\<lambda>a b. 0) [zeroEval] [quizGrade] ''s1'' Corte1)
        (ndiv (spec_percentageSum (evaluationsByCorte (\<lambda>a b. 0) [zeroEval] Corte1)) (Num 100))
      = NaN"
    by (simp only: zero_values u)
  show ?thesis
    by (intro conjI h1 quiz_values(4) v1 v2 v3 quiz_values(6) r3 h4 r4 v5)
qed




text \<open>
  C4: for every student, corte and snapshot of evaluations and grades, the weighted corte
  sum computed by the grade table (both revisions) is the sum, starting from 0 and taken
  over the evaluations of that corte in name order, of score times (percentage / 100).
  The evaluations summed are exactly those of the corte, and the score is the one
  recorded for (student, evaluation) in the grades list, 0 when no row is recorded or the
  recorded score is null.
\<close>

theorem C4_weightedCorteSum_is_sum:
  "calculateCorteTotal localeCompare evaluations grades sid c
     = foldl (\<lambda>total ev.
          nadd total (nmul (spec_score grades sid (ev_id ev)) (ndiv (ev_percentage ev) (Num 100))))
        (Num 0) (evaluationsByCorte localeCompare evaluations c)
   \<and> calculateWeightedCorteSum localeCompare evaluations grades sid c
     = foldl (\<lambda>total ev.
          nadd total (nmul (spec_score grades sid (ev_id ev)) (ndiv (ev_percentage ev) (Num 100))))
        (Num 0) (evaluationsByCorte localeCompare evaluations c)
   \<and> mset (evaluationsByCorte localeCompare evaluations c)
     = mset (filter (\<lambda>ev. ev_corte ev = c) evaluations)
   \<and> spec_score [] sid eid = Num 0
   \<and> spec_score (\<lparr>studentId = sid, evaluationId = eid, score = Some x\<rparr> # rest) sid eid = x
   \<and> spec_score (\<lparr>studentId = sid, evaluationId = eid, score = None\<rparr> # rest) sid eid = Num 0
   \<and> spec_score (\<lparr>studentId = sid', evaluationId = eid', score = y\<rparr> # rest) sid eid
     = (if sid' = sid \<and> eid' = eid then (case y of None \<Rightarrow> Num 0 | Some s \<Rightarrow> s)
        else spec_score rest sid eid)"
proof -
  have s: "spec_weightedSum grades sid (evaluationsByCorte localeCompare evaluations c)
     = foldl (\<lambda>total ev.
          nadd total (nmul (spec_score grades sid (ev_id ev)) (ndiv (ev_percentage ev) (Num 100))))
        (Num 0) (evaluationsByCorte localeCompare evaluations c)"
    by (simp add: spec_weightedSum_def spec_weighted_def)
  show ?thesis
    by (simp add: calculateCorteTotal_spec calculateWeightedCorteSum_spec s
        mset_evaluationsByCorte spec_score_def gradeKey_def split: option.splits)
qed

text \<open>
  C5 (the code departs from it): the CSV export prints a null score and an explicit 0 the
  same way. Replacing one null score by 0 anywhere in the grades list leaves every row of
  \<open>handleDownloadCSV\<close> unchanged, whatever \<open>toFixed\<close> prints; for one student and
  one evaluation both rows show the formatted 0 three times. The evaluation email, on the
  same two snapshots, writes "N/P" for the null score and the number for the 0.
\<close>

theorem C5_csv_row_null_equals_zero:
  "csvStudentRow toFixed localeCompare evaluations (gs1 @ g\<lparr>score := None\<rparr> # gs2) student
     = csvStudentRow toFixed localeCompare evaluations (gs1 @ g\<lparr>score := Some (Num 0)\<rparr> # gs2) student
   \<and> fst (csvStudentRow toFixed localeCompare [quizEval] [nullGrade] anaStudent)
     = [''s1'', ''\"Ana\"'', ''ana@example.org'', toFixed (Num 0) 2, toFixed (Num 0) 2,
        toFixed (Num 0) 2]
   \<and> fst (csvStudentRow toFixed localeCompare [quizEval] [zeroGrade] anaStudent)
     = [''s1'', ''\"Ana\"'', ''ana@example.org'', toFixed (Num 0) 2, toFixed (Num 0) 2,
        toFixed (Num 0) 2]
   \<and> emailByEvaluationLines numberToString localeCompare [anaStudent] [nullGrade] quizEval
     = [''Ana: N/P'' @ [CHR 0x0A]]
   \<and> emailByEvaluationLines numberToString localeCompare [anaStudent] [zeroGrade] quizEval
     = [''Ana: '' @ numberToString (Num 0) @ [CHR 0x0A]]"
proof -
  have s1: "\<And>cmp :: evaluation \<Rightarrow> evaluation \<Rightarrow> int. array_sort cmp [quizEval] = [quizEval]"
    by (rule array_sort_single)
  have s2: "\<And>cmp :: student \<Rightarrow> student \<Rightarrow> int. array_sort cmp [anaStudent] = [anaStudent]"
    by (rule array_sort_single)
  have c: "ev_corte quizEval = Corte1" "ev_id quizEval = ''e1''" "ev_percentage quizEval = Num 30"
    by (simp_all add: quizEval_def)
  have a: "st_id anaStudent = ''s1''" "st_name anaStudent = ''Ana''"
    "st_email anaStudent = ''ana@example.org''"
    by (simp_all add: anaStudent_def)
  have rows: "fst (csvStudentRow toFixed localeCompare [quizEval] [nullGrade] anaStudent)
     = [''s1'', ''\"Ana\"'', ''ana@example.org'', toFixed (Num 0) 2, toFixed (Num 0) 2,
        toFixed (Num 0) 2]"
    "fst (csvStudentRow toFixed localeCompare [quizEval] [zeroGrade] anaStudent)
     = [''s1'', ''\"Ana\"'', ''ana@example.org'', toFixed (Num 0) 2, toFixed (Num 0) 2,
        toFixed (Num 0) 2]"
    by (simp_all add: csvStudentRow_def csvCorteEvals_def csvCorteStep_def csvEvalStep_def
        Let_def s1 c a getGrade_def scoreOrZero_def nullGrade_def zeroGrade_def arith)
  have mails: "emailByEvaluationLines numberToString localeCompare [anaStudent] [nullGrade] quizEval
     = [''Ana: N/P'' @ [CHR 0x0A]]"
    "emailByEvaluationLines numberToString localeCompare [anaStudent] [zeroGrade] quizEval
     = [''Ana: '' @ numberToString (Num 0) @ [CHR 0x0A]]"
    by (simp_all add: emailByEvaluationLines_def emailScoreText_def Let_def s2 c a getGrade_def
        nullGrade_def zeroGrade_def)
  show ?thesis
    by (intro conjI csvStudentRow_null_zero rows mails)
qed




text \<open>
  C7: whenever a validation check rejects the proposal (percentage not a number or name
  blank, percentage not positive, corte budget, total budget; in the earlier revision:
  percentage outside (0,100], total budget), the handler calls neither callback: the
  evaluations are those before the attempt and the state differs in the error message
  alone. Conversely an error message is set only by a rejection.
\<close>

theorem C7_rejection_changes_nothing:
  "(spec_saveRejected parseFloat parseInt subject_id st \<longrightarrow>
      sv_evaluations (handleSaveEvaluation parseFloat parseInt onAdd onUpd subject_id st)
        = sv_evaluations st
      \<and> sv_error (handleSaveEvaluation parseFloat parseInt onAdd onUpd subject_id st) \<noteq> None
      \<and> handleSaveEvaluation parseFloat parseInt onAdd onUpd subject_id st
        = st\<lparr>sv_error := sv_error (handleSaveEvaluation parseFloat parseInt onAdd onUpd subject_id st)\<rparr>)
   \<and> (sv_error (handleSaveEvaluation parseFloat parseInt onAdd onUpd subject_id st) \<noteq> None \<longrightarrow>
      spec_saveRejected parseFloat parseInt subject_id st)
   \<and> (spec_addRejected parseFloat subject_id st \<longrightarrow>
      sv_evaluations (handleAddEvaluation parseFloat parseInt onAdd subject_id st)
        = sv_evaluations st
      \<and> sv_error (handleAddEvaluation parseFloat parseInt onAdd subject_id st) \<noteq> None
      \<and> handleAddEvaluation parseFloat parseInt onAdd subject_id st
        = st\<lparr>sv_error := sv_error (handleAddEvaluation parseFloat parseInt onAdd subject_id st)\<rparr>)
   \<and> (sv_error (handleAddEvaluation parseFloat parseInt onAdd subject_id st) \<noteq> None \<longrightarrow>
      spec_addRejected parseFloat subject_id st)"
proof (intro conjI impI)
  assume r: "spec_saveRejected parseFloat parseInt subject_id st"
  note h = handleSaveEvaluation_rejected [OF r, of onAdd onUpd]
  show "sv_error (handleSaveEvaluation parseFloat parseInt onAdd onUpd subject_id st) \<noteq> None"
    using h by simp
  show "handleSaveEvaluation parseFloat parseInt onAdd onUpd subject_id st
        = st\<lparr>sv_error := sv_error (handleSaveEvaluation parseFloat parseInt onAdd onUpd subject_id st)\<rparr>"
    using h by simp
  then have "sv_evaluations (handleSaveEvaluation parseFloat parseInt onAdd onUpd subject_id st)
      = sv_evaluations (st\<lparr>sv_error := sv_error (handleSaveEvaluation parseFloat parseInt onAdd onUpd subject_id st)\<rparr>)"
    by simp
  then show "sv_evaluations (handleSaveEvaluation parseFloat parseInt onAdd onUpd subject_id st)
        = sv_evaluations st"
    by simp
next
  assume "sv_error (handleSaveEvaluation parseFloat parseInt onAdd onUpd subject_id st) \<noteq> None"
  then show "spec_saveRejected parseFloat parseInt subject_id st"
    using handleSaveEvaluation_accepted [of parseFloat parseInt subject_id st onAdd onUpd, THEN conjunct1]
    by (cases "spec_saveRejected parseFloat parseInt subject_id st") simp_all
next
  assume r: "spec_addRejected parseFloat subject_id st"
  note h = handleAddEvaluation_rejected [OF r, of parseInt onAdd]
  show "sv_error (handleAddEvaluation parseFloat parseInt onAdd subject_id st) \<noteq> None"
    using h by simp
  show "handleAddEvaluation parseFloat parseInt onAdd subject_id st
        = st\<lparr>sv_error := sv_error (handleAddEvaluation parseFloat parseInt onAdd subject_id st)\<rparr>"
    using h by simp
  then have "sv_evaluations (handleAddEvaluation parseFloat parseInt onAdd subject_id st)
      = sv_evaluations (st\<lparr>sv_error := sv_error (handleAddEvaluation parseFloat parseInt onAdd subject_id st)\<rparr>)"
    by simp
  then show "sv_evaluations (handleAddEvaluation parseFloat parseInt onAdd subject_id st)
        = sv_evaluations st"
    by simp
next
  assume "sv_error (handleAddEvaluation parseFloat parseInt onAdd subject_id st) \<noteq> None"
  then show "spec_addRejected parseFloat subject_id st"
    using handleAddEvaluation_accepted [of parseFloat subject_id st parseInt onAdd, THEN conjunct1]
    by (cases "spec_addRejected parseFloat subject_id st") simp_all
qed

theorem C7_rejection_changes_nothing_witness:
  "spec_saveRejected parseFloatSample parseIntSample ''subj'' (addState [quizEval] ''10'')
   \<and> sv_evaluations (handleSaveEvaluation parseFloatSample parseIntSample onAddSample
        onUpdateSample ''subj'' (addState [quizEval] ''10'')) = [quizEval]
   \<and> sv_error (handleSaveEvaluation parseFloatSample parseIntSample onAddSample
        onUpdateSample ''subj'' (addState [quizEval] ''10''))
      = Some (CorteBudgetExceeded Corte1 (Num 30) (Num 0))
   \<and> spec_addRejected parseFloatSample ''subj'' (addState legacySubject ''30'')
   \<and> sv_evaluations (handleAddEvaluation parseFloatSample parseIntSample onAddSample
        ''subj'' (addState legacySubject ''30'')) = legacySubject"
proof -
  have r1: "spec_saveRejected parseFloatSample parseIntSample ''subj'' (addState [quizEval] ''10'')"
    by (simp add: spec_saveRejected_def sample_defs validator_defs arith ngt_def)
  have r2: "spec_addRejected parseFloatSample ''subj'' (addState legacySubject ''30'')"
    by (simp add: spec_addRejected_def sample_defs validator_defs arith ngt_def)
  have e: "sv_error (handleSaveEvaluation parseFloatSample parseIntSample onAddSample
        onUpdateSample ''subj'' (addState [quizEval] ''10''))
      = Some (CorteBudgetExceeded Corte1 (Num 30) (Num 0))"
    by (simp add: sample_defs validator_defs arith ngt_def)
  have s1: "sv_evaluations (addState [quizEval] ''10'') = [quizEval]"
    and s2: "sv_evaluations (addState legacySubject ''30'') = legacySubject"
    by (simp_all add: addState_def addStateIn_def)
  note t1 = C7_rejection_changes_nothing [of parseFloatSample parseIntSample "''subj''"
      "addState [quizEval] ''10''" onAddSample onUpdateSample, THEN conjunct1, THEN mp, OF r1,
      THEN conjunct1]
  note t2 = C7_rejection_changes_nothing [of parseFloatSample parseIntSample "''subj''"
      "addState legacySubject ''30''" onAddSample onUpdateSample, THEN conjunct2, THEN conjunct2,
      THEN conjunct1, THEN mp, OF r2, THEN conjunct1]
  show ?thesis
    using r1 r2 e t1 t2 by (simp only: s1 s2 simp_thms)
qed

text \<open>
  C8: for every score in [0,20] exactly one of the five ranges [0,4), [4,8), [8,12),
  [12,16), [16,20] holds it, and the bucket step of \<open>calculateStats\<close> increments the
  counter of that range and no other; hence, for scores in [0,20], every counter of the
  returned distribution is the number of scores in its range, and the counters sum to
  the number of scores.
\<close>

theorem C8_buckets_partition:
  "(nle (Num 0) s \<and> nle s (Num 20) \<longrightarrow>
      (\<exists>!i. i < 5 \<and> spec_inBucket i s)
      \<and> bucketStep [a, b, c, d, e] s =
          [a + (if spec_inBucket 0 s then 1 else 0), b + (if spec_inBucket 1 s then 1 else 0),
           c + (if spec_inBucket 2 s then 1 else 0), d + (if spec_inBucket 3 s then 1 else 0),
           e + (if spec_inBucket 4 s then 1 else 0)])
   \<and> ((\<forall>sc \<in> set studentScores. nle (Num 0) (ns_score sc) \<and> nle (ns_score sc) (Num 20)) \<longrightarrow>
      distribution (calculateStats studentScores passingGrade)
        = map (\<lambda>i. bucketCount i (map ns_score studentScores)) [0, 1, 2, 3, 4]
      \<and> sum_list (distribution (calculateStats studentScores passingGrade))
        = length studentScores)"
proof (intro conjI impI)
  assume "nle (Num 0) s \<and> nle s (Num 20)"
  then show "\<exists>!i. i < 5 \<and> spec_inBucket i s"
    by (simp add: in_exactly_one_bucket)
next
  assume "nle (Num 0) s \<and> nle s (Num 20)"
  then show "bucketStep [a, b, c, d, e] s =
          [a + (if spec_inBucket 0 s then 1 else 0), b + (if spec_inBucket 1 s then 1 else 0),
           c + (if spec_inBucket 2 s then 1 else 0), d + (if spec_inBucket 3 s then 1 else 0),
           e + (if spec_inBucket 4 s then 1 else 0)]"
    by (simp add: bucketStep_spec)
next
  assume "\<forall>sc \<in> set studentScores. nle (Num 0) (ns_score sc) \<and> nle (ns_score sc) (Num 20)"
  then have "\<forall>s \<in> set (map ns_score studentScores). nle (Num 0) s \<and> nle s (Num 20)"
    by simp
  then show "distribution (calculateStats studentScores passingGrade)
        = map (\<lambda>i. bucketCount i (map ns_score studentScores)) [0, 1, 2, 3, 4]"
    by (simp add: distribution_calculateStats foldl_bucketStep_counts)
next
  obtain a' b' c' d' e' where
    "foldl bucketStep [0, 0, 0, 0, 0] (map ns_score studentScores) = [a', b', c', d', e']"
    "a' + b' + c' + d' + e' = 0 + 0 + 0 + 0 + 0 + length (map ns_score studentScores)"
    using foldl_bucketStep_shape [of 0 0 0 0 0 "map ns_score studentScores"] by blast
  then show "sum_list (distribution (calculateStats studentScores passingGrade))
        = length studentScores"
    by (simp add: distribution_calculateStats)
qed

theorem C8_buckets_partition_witness:
  "nle (Num 0) (Num 10) \<and> nle (Num 10) (Num 20)
   \<and> bucketStep [0, 0, 0, 0, 0] (Num 10) = [0, 0, 1, 0, 0]
   \<and> list_all (\<lambda>sc. nle (Num 0) (ns_score sc) \<and> nle (ns_score sc) (Num 20)) threeScores
   \<and> distribution (calculateStats threeScores (Num 10)) = [0, 0, 2, 0, 1]
   \<and> sum_list (distribution (calculateStats threeScores (Num 10))) = 3"
proof -
  have h1: "nle (Num 0) (Num 10) \<and> nle (Num 10) (Num 20)" by simp
  have h2: "\<forall>sc \<in> set threeScores. nle (Num 0) (ns_score sc) \<and> nle (ns_score sc) (Num 20)"
    by (simp add: threeScores_def)
  note r1 = C8_buckets_partition [of "Num 10" 0 0 0 0 0, THEN conjunct1, THEN mp, OF h1]
  note r2 = C8_buckets_partition [of _ _ _ _ _ _ threeScores "Num 10", THEN conjunct2, THEN mp, OF h2]
  have b: "map (\<lambda>i. bucketCount i (map ns_score threeScores)) [0, 1, 2, 3, 4] = [0, 0, 2, 0, 1]"
    by (simp add: bucketCount_def threeScores_def spec_inBucket_def)
  have d: "distribution (calculateStats threeScores (Num 10)) = [0, 0, 2, 0, 1]"
    unfolding r2 [THEN conjunct1] by (rule b)
  have st: "bucketStep [0, 0, 0, 0, 0] (Num 10) = [0, 0, 1, 0, 0]"
    using r1 [THEN conjunct2] by (simp add: spec_inBucket_def)
  show ?thesis
    using h2 by (simp add: d st list_all_iff)
qed

text \<open>
  C9: \<open>calculateStats\<close> on the empty sequence returns average 0, highest 0, lowest 0,
  passed 0, failed 0, pass rate 0, distribution [0,0,0,0,0] and empty passed and failed
  lists; the early return precedes every division.
\<close>

theorem C9_calculateStats_empty:
  "calculateStats [] passingGrade =
     \<lparr>average = Num 0, highest = Num 0, lowest = Num 0, passed = 0, failed = 0,
      passRate = Num 0, distribution = [0, 0, 0, 0, 0], approvedStudents = [],
      failedStudents = []\<rparr>"
  by (simp add: calculateStats_def)

text \<open>
  C10: the aggregation functions read a grade through \<open>getGrade\<close>, which returns the
  first row matching (studentId, evaluationId): a matching row is returned whenever no
  row before it matches, wherever it stands in the list, and nothing is returned when no
  row matches. When every key occurs at most once in the grades list, the weighted corte
  sum, the normalized corte grade and the final grade are the same for every permutation
  of the list. With a duplicated key the first row alone counts, and swapping the two
  rows changes all three results.
\<close>

theorem C10_grades_order:
  "(distinct (map gradeKey grades) \<and> mset grades' = mset grades \<longrightarrow>
      getGrade grades' sid eid = getGrade grades sid eid
      \<and> calculateCorteTotal localeCompare evaluations grades' sid c
        = calculateCorteTotal localeCompare evaluations grades sid c
      \<and> calculateWeightedCorteSum localeCompare evaluations grades' sid c
        = calculateWeightedCorteSum localeCompare evaluations grades sid c
      \<and> calculateNormalizedCorteGrade localeCompare evaluations grades' sid c
        = calculateNormalizedCorteGrade localeCompare evaluations grades sid c
      \<and> finalGrade localeCompare evaluations grades' sid
        = finalGrade localeCompare evaluations grades sid
      \<and> finalGradeWeighted localeCompare evaluations grades' sid
        = finalGradeWeighted localeCompare evaluations grades sid
      \<and> reportFinalGrade evaluations grades' sid = reportFinalGrade evaluations grades sid)
   \<and> (list_all (\<lambda>g'. gradeKey g' \<noteq> (sid, eid)) pre \<and> gradeKey g = (sid, eid) \<longrightarrow>
      getGrade (pre @ g # rest) sid eid = Some g)
   \<and> (list_all (\<lambda>g'. gradeKey g' \<noteq> (sid, eid)) grades \<longrightarrow> getGrade grades sid eid = None)
   \<and> getGrade (\<lparr>studentId = sid, evaluationId = eid, score = x\<rparr> # rest) sid eid
        = Some \<lparr>studentId = sid, evaluationId = eid, score = x\<rparr>
   \<and> mset [dupA, dupB] = mset [dupB, dupA]
   \<and> calculateWeightedCorteSum localeCompare [quizEval] [dupA, dupB] ''s1'' Corte1 = Num (9 / 2)
   \<and> calculateWeightedCorteSum localeCompare [quizEval] [dupB, dupA] ''s1'' Corte1 = Num 3
   \<and> calculateNormalizedCorteGrade localeCompare [quizEval] [dupA, dupB] ''s1'' Corte1 = Num 15
   \<and> calculateNormalizedCorteGrade localeCompare [quizEval] [dupB, dupA] ''s1'' Corte1 = Num 10
   \<and> finalGrade localeCompare [quizEval] [dupA, dupB] ''s1'' = Num (9 / 2)
   \<and> finalGrade localeCompare [quizEval] [dupB, dupA] ''s1'' = Num 3"
proof -
  have gen: "distinct (map gradeKey grades) \<and> mset grades' = mset grades \<longrightarrow>
      getGrade grades' sid eid = getGrade grades sid eid
      \<and> calculateCorteTotal localeCompare evaluations grades' sid c
        = calculateCorteTotal localeCompare evaluations grades sid c
      \<and> calculateWeightedCorteSum localeCompare evaluations grades' sid c
        = calculateWeightedCorteSum localeCompare evaluations grades sid c
      \<and> calculateNormalizedCorteGrade localeCompare evaluations grades' sid c
        = calculateNormalizedCorteGrade localeCompare evaluations grades sid c
      \<and> finalGrade localeCompare evaluations grades' sid
        = finalGrade localeCompare evaluations grades sid
      \<and> finalGradeWeighted localeCompare evaluations grades' sid
        = finalGradeWeighted localeCompare evaluations grades sid
      \<and> reportFinalGrade evaluations grades' sid = reportFinalGrade evaluations grades sid"
  proof
    assume "distinct (map gradeKey grades) \<and> mset grades' = mset grades"
    then have e: "getGrade grades' = getGrade grades"
      by (simp add: getGrade_perm)
    show "getGrade grades' sid eid = getGrade grades sid eid
      \<and> calculateCorteTotal localeCompare evaluations grades' sid c
        = calculateCorteTotal localeCompare evaluations grades sid c
      \<and> calculateWeightedCorteSum localeCompare evaluations grades' sid c
        = calculateWeightedCorteSum localeCompare evaluations grades sid c
      \<and> calculateNormalizedCorteGrade localeCompare evaluations grades' sid c
        = calculateNormalizedCorteGrade localeCompare evaluations grades sid c
      \<and> finalGrade localeCompare evaluations grades' sid
        = finalGrade localeCompare evaluations grades sid
      \<and> finalGradeWeighted localeCompare evaluations grades' sid
        = finalGradeWeighted localeCompare evaluations grades sid
      \<and> reportFinalGrade evaluations grades' sid = reportFinalGrade evaluations grades sid"
      by (simp add: e Let_def calculateCorteTotal_def calculateWeightedCorteSum_def
          calculateNormalizedCorteGrade_def finalGrade_def finalGradeWeighted_def
          reportFinalGrade_def)
  qed
  have fm: "list_all (\<lambda>g'. gradeKey g' \<noteq> (sid, eid)) pre \<and> gradeKey g = (sid, eid) \<longrightarrow>
      getGrade (pre @ g # rest) sid eid = Some g"
    by (simp add: getGrade_first_match)
  have nm: "list_all (\<lambda>g'. gradeKey g' \<noteq> (sid, eid)) grades \<longrightarrow> getGrade grades sid eid = None"
    by (induction grades) (auto simp: getGrade_def gradeKey_def)
  have first: "getGrade (\<lparr>studentId = sid, evaluationId = eid, score = x\<rparr> # rest) sid eid
        = Some \<lparr>studentId = sid, evaluationId = eid, score = x\<rparr>"
    by (simp add: getGrade_def)
  have e1: "evaluationsByCorte localeCompare [quizEval] Corte1 = [quizEval]"
    and e2: "evaluationsByCorte localeCompare [quizEval] Corte2 = []"
    and e3: "evaluationsByCorte localeCompare [quizEval] Corte3 = []"
    by (simp_all add: evaluationsByCorte_def array_sort_single quizEval_def array_sort_Nil_iff)
  have w: "calculateWeightedCorteSum localeCompare [quizEval] [dupA, dupB] ''s1'' Corte1 = Num (9 / 2)"
    "calculateWeightedCorteSum localeCompare [quizEval] [dupB, dupA] ''s1'' Corte1 = Num 3"
    by (simp_all add: calculateWeightedCorteSum_spec e1 dup_values)
  have n: "calculateNormalizedCorteGrade localeCompare [quizEval] [dupA, dupB] ''s1'' Corte1 = Num 15"
    "calculateNormalizedCorteGrade localeCompare [quizEval] [dupB, dupA] ''s1'' Corte1 = Num 10"
    by (simp_all add: calculateNormalizedCorteGrade_cases e1 w quiz_values arith)
  have z: "\<And>gs. spec_weightedSum gs ''s1'' [] = Num 0"
    by (simp add: spec_weightedSum_def)
  have f: "finalGrade localeCompare [quizEval] [dupA, dupB] ''s1'' = Num (9 / 2)"
    "finalGrade localeCompare [quizEval] [dupB, dupA] ''s1'' = Num 3"
    by (simp_all add: finalGrade_def calculateCorteTotal_spec e1 e2 e3 dup_values z arith)
  have m: "mset [dupA, dupB] = mset [dupB, dupA]" by simp
  show ?thesis
    by (intro gen fm nm first m w n f conjI)
qed

theorem C10_grades_order_witness:
  "distinct (map gradeKey [dupA, otherGrade]) \<and> mset [otherGrade, dupA] = mset [dupA, otherGrade]
   \<and> getGrade [otherGrade, dupA] ''s1'' ''e1'' = Some dupA
   \<and> calculateWeightedCorteSum (\<lambda>a b. 0) [quizEval] [otherGrade, dupA] ''s1'' Corte1
       = calculateWeightedCorteSum (\<lambda>a b. 0) [quizEval] [dupA, otherGrade] ''s1'' Corte1
   \<and> finalGrade (\<lambda>a b. 0) [quizEval] [otherGrade, dupA] ''s1''
       = finalGrade (\<lambda>a b. 0) [quizEval] [dupA, otherGrade] ''s1''
   \<and> list_all (\<lambda>g'. gradeKey g' \<noteq> (''s1'', ''e1'')) [otherGrade]
   \<and> gradeKey dupA = (''s1'', ''e1'')
   \<and> getGrade ([otherGrade] @ dupA # [dupB]) ''s1'' ''e1'' = Some dupA
   \<and> list_all (\<lambda>g'. gradeKey g' \<noteq> (''s9'', ''e1'')) [otherGrade, dupA, dupB]
   \<and> getGrade [otherGrade, dupA, dupB] ''s9'' ''e1'' = None"
proof -
  have h: "distinct (map gradeKey [dupA, otherGrade]) \<and> mset [otherGrade, dupA] = mset [dupA, otherGrade]"
    by (simp add: gradeKey_def dupA_def otherGrade_def)
  have k: "list_all (\<lambda>g'. gradeKey g' \<noteq> (''s1'', ''e1'')) [otherGrade] \<and> gradeKey dupA = (''s1'', ''e1'')"
    by (simp add: gradeKey_def dupA_def otherGrade_def)
  have k9: "list_all (\<lambda>g'. gradeKey g' \<noteq> (''s9'', ''e1'')) [otherGrade, dupA, dupB]"
    by (simp add: gradeKey_def dupA_def dupB_def otherGrade_def)
  note r = C10_grades_order [of "[dupA, otherGrade]" "[otherGrade, dupA]" "''s1''" "''e1''"
      "\<lambda>a b. 0" "[quizEval]" Corte1, THEN conjunct1, THEN mp, OF h]
  note r2 = C10_grades_order [where sid = "''s1''" and eid = "''e1''" and pre = "[otherGrade]"
      and g = dupA and rest = "[dupB]", THEN conjunct2, THEN conjunct1, THEN mp, OF k]
  note r3 = C10_grades_order [where sid = "''s9''" and eid = "''e1''"
      and grades = "[otherGrade, dupA, dupB]", THEN conjunct2, THEN conjunct2, THEN conjunct1,
      THEN mp, OF k9]
  have g: "getGrade [dupA, otherGrade] ''s1'' ''e1'' = Some dupA"
    by (simp add: getGrade_def dupA_def)
  have g2: "getGrade [otherGrade, dupA] ''s1'' ''e1'' = Some dupA"
    using r g by simp
  show ?thesis
    by (intro conjI h [THEN conjunct1] h [THEN conjunct2] g2 r [THEN conjunct2, THEN conjunct2, THEN conjunct1]
        r [THEN conjunct2, THEN conjunct2, THEN conjunct2, THEN conjunct2, THEN conjunct1]
        k [THEN conjunct1] k [THEN conjunct2] r2 k9 r3)
qed

end
